theory Spec2Isabelle
  imports Complex_Main
begin

section \<open>Values handed to the graphics libraries\<close>

text \<open>
  A \<open>float\<close> of the source is kept as the expression the source computes it by: a literal,
  a conversion from \<open>int\<close>, or an operation on floats. No law of floating-point arithmetic
  is assumed anywhere; no branch of SceneManager.cpp depends on a float.
  \<open>FIndeterminate\<close> is the content of a float that was declared and never written.
\<close>

datatype flt =
    FLit rat
  | FInt int
  | FNeg flt
  | FAdd flt flt
  | FSub flt flt
  | FMul flt flt
  | FDiv flt flt
  | FRadians flt
  | FIndeterminate

datatype vec2 = Vec2 flt flt

datatype vec3 = Vec3 (vx: flt) (vy: flt) (vz: flt)

datatype vec4 = Vec4 flt flt flt flt

text \<open>\<open>glm::vec3 + glm::vec3\<close> adds componentwise.\<close>

fun vec3_add :: "vec3 \<Rightarrow> vec3 \<Rightarrow> vec3" where
  "vec3_add (Vec3 a b c) (Vec3 d e f) = Vec3 (FAdd a d) (FAdd b e) (FAdd c f)"

text \<open>
  A \<open>glm::mat4\<close> is one of the three matrices \<open>glm::scale\<close>, \<open>glm::rotate\<close> (angle in
  radians, axis) and \<open>glm::translate\<close> build, or a product \<open>a * b\<close>.
\<close>

datatype mat4 =
    glm_scale vec3
  | glm_rotate flt vec3
  | glm_translate vec3
  | mat4_mul mat4 mat4

text \<open>The value a ShaderManager setter receives, one constructor per setter.\<close>

datatype uniform_value =
    UMat4 mat4
  | UInt int
  | UBool bool
  | UFloat flt
  | UVec2 vec2
  | UVec3 vec3
  | UVec4 vec4
  | USampler2D int

section \<open>The calls SceneManager makes on its environment\<close>

datatype piece = Str string | Num int

datatype mesh = PlaneMesh | BoxMesh | PrismMesh | CylinderMesh

text \<open>
  Every call on the console, stb_image, OpenGL, the ShaderManager and the ShapeMeshes is an
  event; a run of SceneManager appends its events to the record of calls, in program order.
  \<open>Cout\<close> is one \<open>std::cout << ... << std::endl\<close> statement with the pieces it prints.
  \<open>ShaderSet n v\<close> is a call of the ShaderManager setter for the uniform named \<open>n\<close>.
\<close>

datatype event =
    Cout "piece list"
  | GetCurrentDirectoryA
  | Stbi_set_flip_vertically_on_load bool
  | Stbi_load string
  | Stbi_image_free
  | GlGenTextures nat
  | GlBindTexture nat
  | GlTexParameteri string string
  | GlTexImage2D string int int string
  | GlGenerateMipmap
  | GlActiveTexture int
  | ShaderSet string uniform_value
  | LoadMesh mesh
  | DrawMesh mesh

section \<open>The SceneManager object\<close>

record TEXTURE_INFO =
  tex_ID :: nat
  tex_tag :: string

record OBJECT_MATERIAL =
  diffuseColor :: vec3
  specularColor :: vec3
  shininess :: flt
  mat_tag :: string

text \<open>What \<open>stbi_load\<close> writes through its three out-parameters when it decodes a file.\<close>

record image =
  img_width :: int
  img_height :: int
  img_colorChannels :: int

datatype shader_ptr = NULL | ShaderManagerObject

text \<open>
  The members of the class, then its environment: the record of calls made so far, what
  \<open>stbi_load\<close> answers for each file name (\<open>None\<close>: the null pointer), the working
  directory, and the texture names of the OpenGL driver: \<open>gl_names\<close> is the sequence of
  names \<open>glGenTextures\<close> hands out and \<open>gl_count\<close> how many it has handed out.
  \<open>m_textureIDs\<close> is a C array: a function from the index, every access checked against
  the declared size.
\<close>

record SceneManager =
  m_pShaderManager :: shader_ptr
  m_textureIDs :: "nat \<Rightarrow> TEXTURE_INFO"
  m_loadedTextures :: int
  m_objectMaterials :: "OBJECT_MATERIAL list"
  calls :: "event list"
  files :: "string \<Rightarrow> image option"
  cwd :: string
  gl_names :: "nat \<Rightarrow> nat"
  gl_count :: nat

text \<open>
  Modelled from the spec: the size of \<open>m_textureIDs\<close>, declared in SceneManager.h (absent
  from the sources). The data are "small fixed-size arrays of texture IDs/tags"; the
  comment of \<open>BindGLTextures\<close> gives the size: "There are up to 16 slots".
\<close>

definition MAX_TEXTURES :: int where
  "MAX_TEXTURES = 16"

text \<open>
  The two ways the C++ leaves defined behaviour: a member call through the null
  \<open>m_pShaderManager\<close>, and an index outside \<open>m_textureIDs\<close>.
\<close>

datatype error = NullPointerDereference | ArrayIndexOutOfBounds

definition and_then :: "error + 'a \<Rightarrow> ('a \<Rightarrow> error + 'b) \<Rightarrow> error + 'b" where
  "and_then r f = (case r of Inl e \<Rightarrow> Inl e | Inr v \<Rightarrow> f v)"

definition emit :: "event list \<Rightarrow> SceneManager \<Rightarrow> SceneManager" where
  "emit es s = s\<lparr>calls := calls s @ es\<rparr>"

text \<open>\<open>glGenTextures(1, &id)\<close>: the driver's next name.\<close>

definition glGenTextures :: "SceneManager \<Rightarrow> nat \<times> SceneManager" where
  "glGenTextures s =
     (let name = gl_names s (gl_count s)
      in (name, emit [GlGenTextures name] (s\<lparr>gl_count := gl_count s + 1\<rparr>)))"

text \<open>
  Modelled from the spec: ShaderManager (absent from the sources), the "shader-uniform
  interface (named uniforms such as model matrix, object color, light arrays)": a setter
  stores its value under the uniform's name, so the value of a uniform after a record of
  calls is the one of the last setter call on its name.
\<close>

fun uniform :: "string \<Rightarrow> event list \<Rightarrow> uniform_value option" where
  "uniform n [] = None"
| "uniform n (e # es) =
     (case uniform n es of
        Some v \<Rightarrow> Some v
      | None \<Rightarrow> (case e of ShaderSet m v \<Rightarrow> if m = n then Some v else None | _ \<Rightarrow> None))"

section \<open>Textures\<close>

definition CreateGLTexture :: "string \<Rightarrow> string \<Rightarrow> SceneManager \<Rightarrow> error + (bool \<times> SceneManager)" where
  "CreateGLTexture filename tag s0 =
     (let s1 = emit [GetCurrentDirectoryA,
                     Cout [Str ''Runtime working directory: '', Str (cwd s0)],
                     Stbi_set_flip_vertically_on_load True,
                     Cout [Str ''Attemping to load image: '', Str filename],
                     Stbi_load filename] s0
      in case files s1 filename of
           Some img \<Rightarrow>
             (let width = img_width img; height = img_height img;
                  colorChannels = img_colorChannels img;
                  s2 = emit [Cout [Str ''Successfully loaded image:'', Str filename,
                                   Str '', width:'', Num width, Str '', height:'', Num height,
                                   Str '', channels:'', Num colorChannels]] s1;
                  (textureID, s3) = glGenTextures s2;
                  s4 = emit [GlBindTexture textureID,
                             GlTexParameteri ''GL_TEXTURE_WRAP_S'' ''GL_REPEAT'',
                             GlTexParameteri ''GL_TEXTURE_WRAP_T'' ''GL_REPEAT'',
                             GlTexParameteri ''GL_TEXTURE_MIN_FILTER'' ''GL_LINEAR'',
                             GlTexParameteri ''GL_TEXTURE_MAG_FILTER'' ''GL_LINEAR''] s3
              in if colorChannels = 3 \<or> colorChannels = 4 then
                   (let s5 = emit [if colorChannels = 3
                                   then GlTexImage2D ''GL_RGB8'' width height ''GL_RGB''
                                   else GlTexImage2D ''GL_RGBA8'' width height ''GL_RGBA'',
                                   GlGenerateMipmap,
                                   Stbi_image_free,
                                   GlBindTexture 0] s4;
                        n = m_loadedTextures s5
                    in if 0 \<le> n \<and> n < MAX_TEXTURES then
                         Inr (True,
                              s5\<lparr>m_textureIDs := (m_textureIDs s5)
                                    (nat n := (m_textureIDs s5 (nat n))\<lparr>tex_ID := textureID, tex_tag := tag\<rparr>),
                                  m_loadedTextures := n + 1\<rparr>)
                       else Inl ArrayIndexOutOfBounds)
                 else
                   Inr (False,
                        emit [Cout [Str ''Not implemented to handle image with '',
                                    Num colorChannels, Str '' channels'']] s4))
         | None \<Rightarrow>
             Inr (False, emit [Cout [Str ''Could not load image:'', Str filename]] s1))"

text \<open>Reading \<open>m_textureIDs[i]\<close>.\<close>

definition texture_at :: "SceneManager \<Rightarrow> int \<Rightarrow> error + TEXTURE_INFO" where
  "texture_at s i =
     (if 0 \<le> i \<and> i < MAX_TEXTURES then Inr (m_textureIDs s (nat i)) else Inl ArrayIndexOutOfBounds)"

function BindGLTextures_loop :: "int \<Rightarrow> SceneManager \<Rightarrow> error + SceneManager" where
  "BindGLTextures_loop i s =
     (if i < m_loadedTextures s then
        and_then (texture_at s i) (\<lambda>t.
          BindGLTextures_loop (i + 1)
            (emit [GlActiveTexture i, GlBindTexture (tex_ID t)] s))
      else Inr s)"
  by pat_completeness auto
termination
  by (relation "measure (\<lambda>(i, s). nat (m_loadedTextures s - i))") (auto simp: emit_def)

declare BindGLTextures_loop.simps [simp del]

definition BindGLTextures :: "SceneManager \<Rightarrow> error + SceneManager" where
  "BindGLTextures s = BindGLTextures_loop 0 s"

text \<open>
  \<open>glGenTextures(1, &m_textureIDs[i].ID)\<close> writes the driver's next name into the slot's ID.
\<close>

function DestroyGLTextures_loop :: "int \<Rightarrow> SceneManager \<Rightarrow> error + SceneManager" where
  "DestroyGLTextures_loop i s =
     (if i < m_loadedTextures s then
        (if 0 \<le> i \<and> i < MAX_TEXTURES then
           (let (name, s1) = glGenTextures s
            in DestroyGLTextures_loop (i + 1)
                 (s1\<lparr>m_textureIDs := (m_textureIDs s1)
                        (nat i := (m_textureIDs s1 (nat i))\<lparr>tex_ID := name\<rparr>)\<rparr>))
         else Inl ArrayIndexOutOfBounds)
      else Inr s)"
  by pat_completeness auto
termination
  by (relation "measure (\<lambda>(i, s). nat (m_loadedTextures s - i))")
     (auto simp: glGenTextures_def emit_def Let_def)

declare DestroyGLTextures_loop.simps [simp del]

definition DestroyGLTextures :: "SceneManager \<Rightarrow> error + SceneManager" where
  "DestroyGLTextures s = DestroyGLTextures_loop 0 s"

text \<open>
  The search loops keep the source's variables: the result so far, \<open>index\<close> and \<open>bFound\<close>.
  (\<open>FindTextureID\<close>, the same loop returning the ID, has no caller and is left out.)
\<close>

function FindTextureSlot_loop :: "string \<Rightarrow> SceneManager \<Rightarrow> int \<Rightarrow> int \<Rightarrow> bool \<Rightarrow> error + int" where
  "FindTextureSlot_loop tag s textureSlot index bFound =
     (if index < m_loadedTextures s \<and> bFound = False then
        and_then (texture_at s index) (\<lambda>t.
          if tex_tag t = tag then FindTextureSlot_loop tag s index index True
          else FindTextureSlot_loop tag s textureSlot (index + 1) bFound)
      else Inr textureSlot)"
  by pat_completeness auto
termination
  by (relation "measure (\<lambda>(tag, s, textureSlot, index, bFound).
        2 * nat (m_loadedTextures s - index) + (if bFound then 0 else 1))") auto

declare FindTextureSlot_loop.simps [simp del]

definition FindTextureSlot :: "string \<Rightarrow> SceneManager \<Rightarrow> error + int" where
  "FindTextureSlot tag s = FindTextureSlot_loop tag s (- 1) 0 False"

section \<open>Materials\<close>

text \<open>
  \<open>index < m_objectMaterials.size()\<close> compares the \<open>int\<close> as an unsigned number: it holds
  for \<open>0 \<le> index\<close> below the size only.
\<close>

function FindMaterial_loop ::
  "string \<Rightarrow> OBJECT_MATERIAL list \<Rightarrow> int \<Rightarrow> bool \<Rightarrow> OBJECT_MATERIAL \<Rightarrow> OBJECT_MATERIAL" where
  "FindMaterial_loop tag ms index bFound material =
     (if 0 \<le> index \<and> index < int (length ms) \<and> bFound = False then
        (if mat_tag (ms ! nat index) = tag then
           FindMaterial_loop tag ms index True
             (material\<lparr>diffuseColor := diffuseColor (ms ! nat index),
                       specularColor := specularColor (ms ! nat index),
                       shininess := shininess (ms ! nat index)\<rparr>)
         else FindMaterial_loop tag ms (index + 1) bFound material)
      else material)"
  by pat_completeness auto
termination
  by (relation "measure (\<lambda>(tag, ms, index, bFound, material).
        2 * nat (int (length ms) - index) + (if bFound then 0 else 1))") auto

declare FindMaterial_loop.simps [simp del]

text \<open>
  The reference parameter \<open>material\<close> is passed in and returned beside the result.
\<close>

definition FindMaterial :: "string \<Rightarrow> OBJECT_MATERIAL \<Rightarrow> SceneManager \<Rightarrow> bool \<times> OBJECT_MATERIAL" where
  "FindMaterial tag material s =
     (if length (m_objectMaterials s) = 0 then (False, material)
      else (True, FindMaterial_loop tag (m_objectMaterials s) 0 False material))"

text \<open>
  \<open>OBJECT_MATERIAL material;\<close> with no initialiser: glm's default constructor leaves a
  \<open>vec3\<close> unwritten, \<open>float\<close> has none, \<open>std::string\<close> starts empty.
\<close>

definition uninitialized_material :: OBJECT_MATERIAL where
  "uninitialized_material =
     \<lparr>diffuseColor = Vec3 FIndeterminate FIndeterminate FIndeterminate,
      specularColor = Vec3 FIndeterminate FIndeterminate FIndeterminate,
      shininess = FIndeterminate,
      mat_tag = []\<rparr>"

section \<open>Shader uniforms\<close>

definition SetTransformations ::
  "vec3 \<Rightarrow> flt \<Rightarrow> flt \<Rightarrow> flt \<Rightarrow> vec3 \<Rightarrow> vec3 \<Rightarrow> SceneManager \<Rightarrow> SceneManager" where
  "SetTransformations scaleXYZ XrotationDegrees YrotationDegrees ZrotationDegrees positionXYZ offset s =
     (let scale = glm_scale scaleXYZ;
          rotationX = glm_rotate (FRadians XrotationDegrees) (Vec3 (FLit 1) (FLit 0) (FLit 0));
          rotationY = glm_rotate (FRadians YrotationDegrees) (Vec3 (FLit 0) (FLit 1) (FLit 0));
          rotationZ = glm_rotate (FRadians ZrotationDegrees) (Vec3 (FLit 0) (FLit 0) (FLit 1));
          translation = glm_translate (vec3_add positionXYZ offset);
          modelView = mat4_mul (mat4_mul (mat4_mul (mat4_mul translation rotationZ) rotationY) rotationX) scale
      in if NULL \<noteq> m_pShaderManager s then emit [ShaderSet ''model'' (UMat4 modelView)] s
         else s)"

definition SetShaderColor :: "flt \<Rightarrow> flt \<Rightarrow> flt \<Rightarrow> flt \<Rightarrow> SceneManager \<Rightarrow> SceneManager" where
  "SetShaderColor redColorValue greenColorValue blueColorValue alphaValue s =
     (let currentColor = Vec4 redColorValue greenColorValue blueColorValue alphaValue
      in if NULL \<noteq> m_pShaderManager s then
           emit [ShaderSet ''bUseTexture'' (UInt 0),
                 ShaderSet ''objectColor'' (UVec4 currentColor)] s
         else s)"

definition SetShaderTexture :: "string \<Rightarrow> SceneManager \<Rightarrow> error + SceneManager" where
  "SetShaderTexture textureTag s =
     (if NULL \<noteq> m_pShaderManager s then
        (let s1 = emit [ShaderSet ''bUseTexture'' (UInt 1)] s
         in and_then (FindTextureSlot textureTag s1) (\<lambda>textureID.
              Inr (emit [ShaderSet ''objectTexture'' (USampler2D textureID)] s1)))
      else Inr s)"

definition SetTextureUVScale :: "flt \<Rightarrow> flt \<Rightarrow> SceneManager \<Rightarrow> SceneManager" where
  "SetTextureUVScale u v s =
     (if NULL \<noteq> m_pShaderManager s then emit [ShaderSet ''UVscale'' (UVec2 (Vec2 u v))] s
      else s)"

text \<open>
  Member calls \<open>m_pShaderManager->set...(n, v)\<close>, one after the other, with no null check
  before them.
\<close>

definition shader_set :: "(string \<times> uniform_value) list \<Rightarrow> SceneManager \<Rightarrow> error + SceneManager" where
  "shader_set nvs s =
     (if nvs \<noteq> [] \<and> m_pShaderManager s = NULL then Inl NullPointerDereference
      else Inr (emit (map (\<lambda>(n, v). ShaderSet n v) nvs) s))"

definition SetShaderMaterial :: "string \<Rightarrow> SceneManager \<Rightarrow> error + SceneManager" where
  "SetShaderMaterial materialTag s =
     (if length (m_objectMaterials s) > 0 then
        (let (bReturn, material) = FindMaterial materialTag uninitialized_material s
         in if bReturn = True then
              shader_set [(''material.diffuseColor'', UVec3 (diffuseColor material)),
                          (''material.specularColor'', UVec3 (specularColor material)),
                          (''material.shininess'', UFloat (shininess material))] s
            else Inr s)
      else Inr s)"

section \<open>Preparing the scene\<close>

definition DefineObjectMaterials :: "SceneManager \<Rightarrow> SceneManager" where
  "DefineObjectMaterials s =
     (let cementMaterial =
            uninitialized_material\<lparr>diffuseColor := Vec3 (FLit 0.5) (FLit 0.5) (FLit 0.5),
                                   specularColor := Vec3 (FLit 0.4) (FLit 0.4) (FLit 0.4),
                                   shininess := FLit 0.5,
                                   mat_tag := ''cement''\<rparr>;
          s1 = s\<lparr>m_objectMaterials := m_objectMaterials s @ [cementMaterial]\<rparr>;
          plasticMaterial =
            uninitialized_material\<lparr>diffuseColor := Vec3 (FLit 1) (FLit 1) (FLit 1),
                                   specularColor := Vec3 (FLit 0.2) (FLit 0.2) (FLit 0.2),
                                   shininess := FLit 2,
                                   mat_tag := ''plastic''\<rparr>
      in s1\<lparr>m_objectMaterials := m_objectMaterials s1 @ [plasticMaterial]\<rparr>)"

definition SetupSceneLights :: "SceneManager \<Rightarrow> error + SceneManager" where
  "SetupSceneLights s =
     shader_set
       [(''bUseLighting'', UBool True),
        (''pointLights[0].position'', UVec3 (Vec3 (FLit 0) (FLit 9.5) (FLit 2.5))),
        (''pointLights[0].ambient'', UVec3 (Vec3 (FLit 0.15) (FLit 0.15) (FLit 0.15))),
        (''pointLights[0].diffuse'', UVec3 (Vec3 (FLit 0.6) (FLit 0.6) (FLit 0.6))),
        (''pointLights[0].specular'', UVec3 (Vec3 (FLit 0.5) (FLit 0.5) (FLit 0.5))),
        (''pointLights[0].constant'', UFloat (FLit 1)),
        (''pointLights[0].linear'', UFloat (FLit 0.045)),
        (''pointLights[0].quadratic'', UFloat (FLit 0.0075)),
        (''pointLights[0].bActive'', UBool True),
        (''pointLights[1].position'', UVec3 (Vec3 (FLit (- 1.25)) (FLit 3.5) (FLit 3))),
        (''pointLights[1].ambient'', UVec3 (Vec3 (FLit 0.05) (FLit 0.1) (FLit 0.2))),
        (''pointLights[1].diffuse'', UVec3 (Vec3 (FLit 0.2) (FLit 0.4) (FLit 0.8))),
        (''pointLights[1].specular'', UVec3 (Vec3 (FLit 0.1) (FLit 0.2) (FLit 0.4))),
        (''pointLights[1].constant'', UFloat (FLit 1)),
        (''pointLights[1].linear'', UFloat (FLit 0.22)),
        (''pointLights[1].quadratic'', UFloat (FLit 0.2)),
        (''pointLights[1].bActive'', UBool True),
        (''bUseLighting'', UBool True)] s"

text \<open>The three return values of \<open>CreateGLTexture\<close> are dropped, as in the source.\<close>

definition PrepareScene :: "SceneManager \<Rightarrow> error + SceneManager" where
  "PrepareScene s0 =
     and_then (SetupSceneLights (DefineObjectMaterials s0)) (\<lambda>s1.
     (let s2 = emit [LoadMesh PlaneMesh, LoadMesh BoxMesh, LoadMesh PrismMesh, LoadMesh CylinderMesh] s1
      in and_then (CreateGLTexture ''textures/computer_case_texture_2.jpg'' ''ComputerCase'' s2) (\<lambda>(r3, s3).
         and_then (CreateGLTexture ''textures/crt_on_texture_1.jpg'' ''CRTScreen'' s3) (\<lambda>(r4, s4).
         and_then (CreateGLTexture ''textures/table_texture_1.jpeg'' ''TableTexture'' s4) (\<lambda>(r5, s5).
         BindGLTextures s5)))))"

section \<open>Drawing the scene\<close>

text \<open>
  The default arguments of \<open>SetTransformations\<close> (its \<open>offset\<close>) and of \<open>DrawKey\<close> (its
  \<open>keyScale\<close>) are declared in SceneManager.h, absent from the sources: every function
  that calls one of the two with the argument left out takes the declarations as \<open>h\<close>.
\<close>

record SceneManager_h =
  default_offset :: vec3
  default_keyScale :: vec3

definition DrawMesh_call :: "mesh \<Rightarrow> SceneManager \<Rightarrow> SceneManager" where
  "DrawMesh_call m s = emit [DrawMesh m] s"

definition DrawMainBody :: "SceneManager_h \<Rightarrow> SceneManager \<Rightarrow> error + SceneManager" where
  "DrawMainBody h s0 =
     (let scaleXYZ = Vec3 (FLit 7) (FLit 5) (FLit 5);
          positionXYZ = Vec3 (FLit 0) (FLit 3.5) (FLit 0);
          s1 = SetTransformations scaleXYZ (FLit 0) (FLit 0) (FLit 0) positionXYZ (default_offset h) s0
      in and_then (SetShaderTexture ''ComputerCase'' s1) (\<lambda>s2.
         and_then (SetShaderMaterial ''plastic'' s2) (\<lambda>s3.
         Inr (DrawMesh_call BoxMesh (SetTextureUVScale (FLit 2) (FLit 2) s3)))))"

definition DrawBackBase :: "SceneManager_h \<Rightarrow> SceneManager \<Rightarrow> error + SceneManager" where
  "DrawBackBase h s0 =
     (let scaleXYZ = Vec3 (FLit 7) (FLit 2.5) (FLit 3);
          positionXYZ = Vec3 (FLit 0) (FLit 1.25) (FLit (- 1));
          s1 = SetTransformations scaleXYZ (FLit 0) (FLit 0) (FLit 0) positionXYZ (default_offset h) s0
      in and_then (SetShaderTexture ''ComputerCase'' s1) (\<lambda>s2.
         and_then (SetShaderMaterial ''plastic'' s2) (\<lambda>s3.
         Inr (DrawMesh_call BoxMesh (SetTextureUVScale (FLit 2) (FLit 2) s3)))))"

definition DrawFeet :: "SceneManager_h \<Rightarrow> SceneManager \<Rightarrow> error + SceneManager" where
  "DrawFeet h s0 =
     (let scaleXYZ = Vec3 (FLit 1) (FLit 1) (FLit 0.2);
          positionXYZ = Vec3 (FLit (- 3)) (FLit 0.5) (FLit 0.6);
          s1 = SetTransformations scaleXYZ (FLit 0) (FLit 0) (FLit 0) positionXYZ (default_offset h) s0
      in and_then (SetShaderTexture ''ComputerCase'' s1) (\<lambda>s2.
         and_then (SetShaderMaterial ''plastic'' s2) (\<lambda>s3.
         (let s4 = DrawMesh_call BoxMesh (SetTextureUVScale (FLit 2) (FLit 2) s3);
              scaleXYZ = Vec3 (FLit 1) (FLit 1) (FLit 0.5);
              positionXYZ = Vec3 (FLit (- 3)) (FLit 0.25) (FLit 0.7);
              s5 = SetTransformations scaleXYZ (FLit (- 90)) (FLit 90) (FLit 0) positionXYZ (default_offset h) s4
          in and_then (SetShaderTexture ''ComputerCase'' s5) (\<lambda>s6.
             and_then (SetShaderMaterial ''plastic'' s6) (\<lambda>s7.
             (let s8 = DrawMesh_call PrismMesh (SetTextureUVScale (FLit 2) (FLit 2) s7);
                  scaleXYZ = Vec3 (FLit 1) (FLit 1) (FLit 0.2);
                  positionXYZ = Vec3 (FLit 3) (FLit 0.5) (FLit 0.6);
                  s9 = SetTransformations scaleXYZ (FLit 0) (FLit 0) (FLit 0) positionXYZ (default_offset h) s8
              in and_then (SetShaderTexture ''ComputerCase'' s9) (\<lambda>s10.
                 and_then (SetShaderMaterial ''plastic'' s10) (\<lambda>s11.
                 (let s12 = DrawMesh_call BoxMesh (SetTextureUVScale (FLit 2) (FLit 2) s11);
                      scaleXYZ = Vec3 (FLit 1) (FLit 1) (FLit 0.5);
                      positionXYZ = Vec3 (FLit 3) (FLit 0.25) (FLit 0.7);
                      s13 = SetTransformations scaleXYZ (FLit (- 90)) (FLit 90) (FLit 0) positionXYZ
                              (default_offset h) s12
                  in and_then (SetShaderTexture ''ComputerCase'' s13) (\<lambda>s14.
                     and_then (SetShaderMaterial ''plastic'' s14) (\<lambda>s15.
                     Inr (DrawMesh_call PrismMesh (SetTextureUVScale (FLit 2) (FLit 2) s15))))))))))))))"

definition DrawFloppyDrive :: "SceneManager_h \<Rightarrow> SceneManager \<Rightarrow> error + SceneManager" where
  "DrawFloppyDrive h s0 =
     (let scaleXYZ = Vec3 (FLit 2) (FLit 2.5) (FLit 0.2);
          positionXYZ = Vec3 (FLit 2) (FLit 3.5) (FLit 2.6);
          s1 = SetTransformations scaleXYZ (FLit 0) (FLit 0) (FLit 0) positionXYZ (default_offset h) s0
      in and_then (SetShaderTexture ''ComputerCase'' s1) (\<lambda>s2.
         and_then (SetShaderMaterial ''plastic'' s2) (\<lambda>s3.
         (let s4 = DrawMesh_call BoxMesh (SetTextureUVScale (FLit 2) (FLit 2) s3);
              scaleXYZ = Vec3 (FLit 1.5) (FLit 0.1) (FLit 0.05);
              positionXYZ = Vec3 (FLit 2) (FLit 4.4) (FLit 2.7);
              s5 = SetTransformations scaleXYZ (FLit 0) (FLit 0) (FLit 0) positionXYZ (default_offset h) s4;
              s6 = SetShaderColor (FLit 0.1) (FLit 0.1) (FLit 0.1) (FLit 1) s5;
              s7 = DrawMesh_call BoxMesh s6;
              scaleXYZ = Vec3 (FLit 1.5) (FLit 0.1) (FLit 0.05);
              positionXYZ = Vec3 (FLit 2) (FLit 2.8) (FLit 2.7);
              s8 = SetTransformations scaleXYZ (FLit 0) (FLit 0) (FLit 0) positionXYZ (default_offset h) s7;
              s9 = SetShaderColor (FLit 0.1) (FLit 0.1) (FLit 0.1) (FLit 1) s8
          in Inr (DrawMesh_call BoxMesh s9)))))"

definition DrawCRTPanel :: "SceneManager_h \<Rightarrow> SceneManager \<Rightarrow> error + SceneManager" where
  "DrawCRTPanel h s0 =
     (let scaleXYZ = Vec3 (FLit 3.5) (FLit 2.8) (FLit 0.2);
          positionXYZ = Vec3 (FLit (- 1.25)) (FLit 3.5) (FLit 2.6);
          s1 = SetTransformations scaleXYZ (FLit 0) (FLit 0) (FLit 0) positionXYZ (default_offset h) s0
      in and_then (SetShaderTexture ''CRTScreen'' s1) (\<lambda>s2.
         Inr (DrawMesh_call BoxMesh (SetTextureUVScale (FLit 1) (FLit 1) s2))))"

definition DrawProFile :: "SceneManager_h \<Rightarrow> SceneManager \<Rightarrow> error + SceneManager" where
  "DrawProFile h s0 =
     (let scaleXYZ = Vec3 (FLit 6.5) (FLit 1) (FLit 4);
          positionXYZ = Vec3 (FLit 0) (FLit 6.7) (FLit 0);
          s1 = SetTransformations scaleXYZ (FLit 0) (FLit 0) (FLit 0) positionXYZ (default_offset h) s0
      in and_then (SetShaderTexture ''ComputerCase'' s1) (\<lambda>s2.
         and_then (SetShaderMaterial ''plastic'' s2) (\<lambda>s3.
         (let s4 = DrawMesh_call BoxMesh (SetTextureUVScale (FLit 2) (FLit 2) s3);
              footScale = Vec3 (FLit 0.3) (FLit 0.2) (FLit 0.3);
              baseY = FLit 6.10;
              xInset = FLit 2.75;
              zInset = FLit 1.5;
              s5 = SetTransformations footScale (FLit 0) (FLit 0) (FLit 0)
                     (Vec3 (FNeg xInset) baseY (FNeg zInset)) (default_offset h) s4;
              s6 = SetShaderColor (FLit 0.05) (FLit 0.05) (FLit 0.05) (FLit 1) s5;
              s7 = DrawMesh_call BoxMesh s6;
              s8 = SetTransformations footScale (FLit 0) (FLit 0) (FLit 0)
                     (Vec3 xInset baseY (FNeg zInset)) (default_offset h) s7;
              s9 = SetShaderColor (FLit 0.05) (FLit 0.05) (FLit 0.05) (FLit 1) s8;
              s10 = DrawMesh_call BoxMesh s9;
              s11 = SetTransformations footScale (FLit 0) (FLit 0) (FLit 0)
                      (Vec3 (FNeg xInset) baseY zInset) (default_offset h) s10;
              s12 = SetShaderColor (FLit 0.05) (FLit 0.05) (FLit 0.05) (FLit 1) s11;
              s13 = DrawMesh_call BoxMesh s12;
              s14 = SetTransformations footScale (FLit 0) (FLit 0) (FLit 0)
                      (Vec3 xInset baseY zInset) (default_offset h) s13;
              s15 = SetShaderColor (FLit 0.05) (FLit 0.05) (FLit 0.05) (FLit 1) s14
          in Inr (DrawMesh_call BoxMesh s15)))))"

definition DrawMouse :: "SceneManager_h \<Rightarrow> SceneManager \<Rightarrow> SceneManager" where
  "DrawMouse h s0 =
     (let baseScale = Vec3 (FLit 1.5) (FLit 0.2) (FLit 2.5);
          basePosition = Vec3 (FLit 6) (FLit 0.1) (FLit 4);
          s1 = SetTransformations baseScale (FLit 0) (FLit 0) (FLit 0) basePosition (default_offset h) s0;
          s2 = SetShaderColor (FLit 0.96) (FLit 0.91) (FLit 0.76) (FLit 1) s1;
          s3 = DrawMesh_call BoxMesh s2;
          topScale = Vec3 (FLit 1.5) (FLit 0.5) (FLit 2.5);
          topPosition = Vec3 (FLit 6) (FLit 0.1) (FLit 4);
          slopeDegrees = FLit 7;
          s4 = SetTransformations topScale slopeDegrees (FLit 0) (FLit 0) topPosition (default_offset h) s3;
          s5 = SetShaderColor (FLit 0.96) (FLit 0.91) (FLit 0.76) (FLit 1) s4;
          s6 = DrawMesh_call BoxMesh s5;
          buttonScale = Vec3 (FLit 1.2) (FLit 0.05) (FLit 0.5);
          buttonPosition = Vec3 (FLit 6) (FLit 0.45) (FLit 3.3);
          s7 = SetTransformations buttonScale slopeDegrees (FLit 0) (FLit 0) buttonPosition (default_offset h) s6;
          s8 = SetShaderColor (FLit 0.2) (FLit 0.2) (FLit 0.2) (FLit 1) s7
      in DrawMesh_call BoxMesh s8)"

definition DrawMouseCable :: "SceneManager_h \<Rightarrow> SceneManager \<Rightarrow> SceneManager" where
  "DrawMouseCable h s0 =
     (let scaleCable = Vec3 (FLit 0.05) (FLit 0.5) (FLit 0.05);
          s1 = SetShaderColor (FLit 0.1) (FLit 0.1) (FLit 0.1) (FLit 1) s0;
          scaleCable = Vec3 (vx scaleCable) (FLit 7.5) (vz scaleCable);
          s2 = SetTransformations scaleCable (FLit 90) (FLit 0) (FLit 0.25)
                 (Vec3 (FLit 6) (FLit 0) (FLit (- 3))) (default_offset h) s1;
          s3 = DrawMesh_call CylinderMesh s2;
          scaleCable = Vec3 (vx scaleCable) (FLit 1) (vz scaleCable);
          s4 = SetTransformations scaleCable (FLit 90) (FLit 0) (FLit 0.25)
                 (Vec3 (FLit 1.25) (FLit 0) (FLit (- 3))) (default_offset h) s3;
          s5 = DrawMesh_call CylinderMesh s4;
          scaleCable = Vec3 (vx scaleCable) (FLit 4.85) (vz scaleCable);
          s6 = SetTransformations scaleCable (FLit 0) (FLit 0) (FLit 90)
                 (Vec3 (FLit 6.05) (FLit 0) (FLit (- 3))) (default_offset h) s5
      in DrawMesh_call CylinderMesh s6)"

definition DrawKey ::
  "SceneManager_h \<Rightarrow> flt \<Rightarrow> flt \<Rightarrow> flt \<Rightarrow> flt \<Rightarrow> vec3 \<Rightarrow> SceneManager \<Rightarrow> error + SceneManager" where
  "DrawKey h x y z slopeDegrees keyScale s0 =
     (let s1 = SetTransformations keyScale slopeDegrees (FLit 0) (FLit 0) (Vec3 x y z) (default_offset h) s0
      in and_then (SetShaderMaterial ''plastic'' s1) (\<lambda>s2.
         Inr (DrawMesh_call BoxMesh (SetShaderColor (FLit 0.2) (FLit 0.2) (FLit 0.2) (FLit 1) s2))))"

text \<open>
  The loops of \<open>DrawKeyboard\<close>, innermost first. The locals of \<open>DrawKeyboard\<close> a loop body
  reads are its parameters.
\<close>

function DrawKeyboard_col_loop ::
  "SceneManager_h \<Rightarrow> flt \<Rightarrow> flt \<Rightarrow> flt \<Rightarrow> flt \<Rightarrow> flt \<Rightarrow> flt \<Rightarrow> int \<Rightarrow> int \<Rightarrow> int \<Rightarrow> SceneManager
     \<Rightarrow> error + SceneManager" where
  "DrawKeyboard_col_loop h keySpacingX keySpacingZ gridStartX gridStartZ y slopeDegrees cols row col s =
     (if col < cols then
        (let x = FAdd gridStartX (FMul (FInt col) keySpacingX);
             z = FSub gridStartZ (FMul (FInt row) keySpacingZ);
             adjustedY = y;
             adjustedY = (if row = 3 then FAdd adjustedY (FLit 0.1) else adjustedY);
             adjustedY = (if row = 2 then FAdd adjustedY (FLit 0.06) else adjustedY);
             adjustedY = (if row = 1 then FAdd adjustedY (FLit 0.02) else adjustedY);
             adjustedY = (if row = 0 then FSub adjustedY (FLit 0.02) else adjustedY)
         in and_then (DrawKey h x adjustedY z slopeDegrees (default_keyScale h) s) (\<lambda>s'.
              DrawKeyboard_col_loop h keySpacingX keySpacingZ gridStartX gridStartZ y slopeDegrees
                cols row (col + 1) s'))
      else Inr s)"
  by pat_completeness auto
termination
  by (relation "measure (\<lambda>(h, kx, kz, gx, gz, y, sl, cols, row, col, s). nat (cols - col))") auto

declare DrawKeyboard_col_loop.simps [simp del]

function DrawKeyboard_special_loop ::
  "SceneManager_h \<Rightarrow> flt list \<Rightarrow> flt \<Rightarrow> flt \<Rightarrow> flt \<Rightarrow> flt \<Rightarrow> flt \<Rightarrow> int \<Rightarrow> SceneManager
     \<Rightarrow> error + SceneManager" where
  "DrawKeyboard_special_loop h widths spacing customRowY customZ slopeDegrees xCursor i s =
     (if i < 5 then
        (if 0 \<le> i \<and> i < int (length widths) then
           (let keyWidth = widths ! nat i;
                keyScale = Vec3 keyWidth (FLit 0.1) (FLit 0.3)
            in and_then (DrawKey h (FAdd xCursor (FDiv keyWidth (FLit 2))) customRowY customZ
                           slopeDegrees keyScale s) (\<lambda>s'.
                 DrawKeyboard_special_loop h widths spacing customRowY customZ slopeDegrees
                   (FAdd xCursor (FAdd keyWidth spacing)) (i + 1) s'))
         else Inl ArrayIndexOutOfBounds)
      else Inr s)"
  by pat_completeness auto
termination
  by (relation "measure (\<lambda>(h, ws, sp, cy, cz, sl, xc, i, s). nat (5 - i))") auto

declare DrawKeyboard_special_loop.simps [simp del]

function DrawKeyboard_row_loop ::
  "SceneManager_h \<Rightarrow> flt \<Rightarrow> flt \<Rightarrow> flt \<Rightarrow> flt \<Rightarrow> flt \<Rightarrow> flt \<Rightarrow> int \<Rightarrow> int \<Rightarrow> int \<Rightarrow> SceneManager
     \<Rightarrow> error + SceneManager" where
  "DrawKeyboard_row_loop h keySpacingX keySpacingZ gridStartX gridStartZ y slopeDegrees rows cols row s =
     (if row < rows then
        and_then
          (if row < 4 then
             DrawKeyboard_col_loop h keySpacingX keySpacingZ gridStartX gridStartZ y slopeDegrees
               cols row 0 s
           else
             (let customRowY = FSub y (FLit 0.05);
                  customZ = FAdd gridStartZ (FMul keySpacingZ (FLit 1.2));
                  slopeDegrees = FLit 7;
                  spacing = FLit 0.05;
                  widths = [FLit 0.3, FLit 0.6, FLit 1.8, FLit 0.6, FLit 0.3];
                  totalKeyWidth = FAdd (FAdd (FAdd (FAdd (widths ! 0) (widths ! 1)) (widths ! 2))
                                    (widths ! 3)) (widths ! 4);
                  totalSpacing = FMul spacing (FLit 4);
                  totalRowWidth = FAdd totalKeyWidth totalSpacing;
                  xCursor = FDiv (FNeg totalRowWidth) (FLit 2)
              in DrawKeyboard_special_loop h widths spacing customRowY customZ slopeDegrees
                   xCursor 0 s))
          (\<lambda>s'. DrawKeyboard_row_loop h keySpacingX keySpacingZ gridStartX gridStartZ y slopeDegrees
                   rows cols (row + 1) s')
      else Inr s)"
  by pat_completeness auto
termination
  by (relation "measure (\<lambda>(h, kx, kz, gx, gz, y, sl, rows, cols, row, s). nat (rows - row))") auto

declare DrawKeyboard_row_loop.simps [simp del]

definition DrawKeyboard :: "SceneManager_h \<Rightarrow> SceneManager \<Rightarrow> error + SceneManager" where
  "DrawKeyboard h s0 =
     (let baseScale = Vec3 (FLit 5) (FLit 0.5) (FLit 2);
          basePosition = Vec3 (FLit 0) (FLit 0.1) (FLit 5);
          s1 = SetTransformations baseScale (FLit 0) (FLit 0) (FLit 0) basePosition (default_offset h) s0
      in and_then (SetShaderMaterial ''plastic'' s1) (\<lambda>s2.
         (let s3 = SetShaderColor (FLit 0.96) (FLit 0.91) (FLit 0.76) (FLit 1) s2;
              s4 = DrawMesh_call BoxMesh s3;
              topScale = Vec3 (FLit 5) (FLit 0.4) (FLit 2);
              topPosition = Vec3 (FLit 0) (FLit 0.35) (FLit 5);
              slopeDegrees = FLit 7;
              s5 = SetTransformations topScale slopeDegrees (FLit 0) (FLit 0) topPosition (default_offset h) s4
          in and_then (SetShaderMaterial ''plastic'' s5) (\<lambda>s6.
             (let s7 = SetShaderColor (FLit 0.96) (FLit 0.91) (FLit 0.76) (FLit 1) s6;
                  s8 = DrawMesh_call BoxMesh s7;
                  rows = 5;
                  cols = 14;
                  keySpacingX = FLit 0.35;
                  keySpacingZ = FLit 0.35;
                  gridStartX = FDiv (FNeg (FMul (FInt (cols - 1)) keySpacingX)) (FLit 2);
                  gridStartZ = FLit 5.3;
                  y = FLit 0.55
              in DrawKeyboard_row_loop h keySpacingX keySpacingZ gridStartX gridStartZ y slopeDegrees
                   rows cols 0 s8)))))"

definition DrawKeyboardCable :: "SceneManager_h \<Rightarrow> SceneManager \<Rightarrow> SceneManager" where
  "DrawKeyboardCable h s0 =
     (let cableThickness = Vec3 (FLit 0.05) (FLit 0.5) (FLit 0.05);
          s1 = SetShaderColor (FLit 0.1) (FLit 0.1) (FLit 0.1) (FLit 1) s0;
          backCenter = Vec3 (FLit 0) (FLit 0.1) (FLit 3.5);
          s2 = SetTransformations cableThickness (FLit 90) (FLit 0) (FLit 0) backCenter (default_offset h) s1;
          s3 = DrawMesh_call CylinderMesh s2;
          nextCableScale = Vec3 (FLit 0.05) (FLit 2.02) (FLit 0.05);
          segment2Center = Vec3 (FLit 2) (FLit 0.1) (FLit 3.5);
          s4 = SetTransformations nextCableScale (FLit 0) (FLit 0) (FLit 90) segment2Center (default_offset h) s3;
          s5 = DrawMesh_call CylinderMesh s4;
          segment3Scale = Vec3 (FLit 0.05) (FLit 3) (FLit 0.05);
          segment3Center = Vec3 (FLit 2) (FLit 0.1) (FLit 0.5);
          s6 = SetTransformations segment3Scale (FLit 90) (FLit 0) (FLit 0) segment3Center (default_offset h) s5
      in DrawMesh_call CylinderMesh s6)"

definition RenderScene :: "SceneManager_h \<Rightarrow> SceneManager \<Rightarrow> error + SceneManager" where
  "RenderScene h s0 =
     (let scaleXYZ = Vec3 (FLit 20) (FLit 1) (FLit 10);
          XrotationDegrees = FLit 0;
          YrotationDegrees = FLit 0;
          ZrotationDegrees = FLit 0;
          positionXYZ = Vec3 (FLit 0) (FLit 0) (FLit 0);
          s1 = SetTransformations scaleXYZ XrotationDegrees YrotationDegrees ZrotationDegrees
                 positionXYZ (default_offset h) s0
      in and_then (SetShaderTexture ''TableTexture'' s1) (\<lambda>s2.
         and_then (SetShaderMaterial ''cement'' s2) (\<lambda>s3.
         and_then (DrawMainBody h (DrawMesh_call PlaneMesh s3)) (\<lambda>s4.
         and_then (DrawBackBase h s4) (\<lambda>s5.
         and_then (DrawFeet h s5) (\<lambda>s6.
         and_then (DrawFloppyDrive h s6) (\<lambda>s7.
         and_then (DrawCRTPanel h s7) (\<lambda>s8.
         and_then (DrawProFile h s8) (\<lambda>s9.
         and_then (DrawKeyboard h (DrawMouseCable h (DrawMouse h s9))) (\<lambda>s10.
         Inr (DrawKeyboardCable h s10)))))))))))"

section \<open>Reading a record of calls\<close>

text \<open>The calls a run from \<open>s\<close> to \<open>s'\<close> has added.\<close>

definition new_calls :: "SceneManager \<Rightarrow> SceneManager \<Rightarrow> event list" where
  "new_calls s s' = drop (length (calls s)) (calls s')"

text \<open>The console statements of a record of calls, and the texture names it generated.\<close>

fun console :: "event list \<Rightarrow> piece list list" where
  "console [] = []"
| "console (Cout ps # es) = ps # console es"
| "console (e # es) = console es"

fun generated :: "event list \<Rightarrow> nat list" where
  "generated [] = []"
| "generated (GlGenTextures n # es) = n # generated es"
| "generated (e # es) = generated es"

text \<open>
  What a frame shows of its calls: the draw calls, the writes of the \<open>model\<close> uniform (one
  per call of \<open>SetTransformations\<close>, which places a primitive) and the writes of
  \<open>bUseTexture\<close>, in program order.
\<close>

datatype mark = Model | UseTexture uniform_value | Draw mesh

fun mark_of :: "event \<Rightarrow> mark list" where
  "mark_of (ShaderSet n v) =
     (if n = ''model'' then [Model] else if n = ''bUseTexture'' then [UseTexture v] else [])"
| "mark_of (DrawMesh m) = [Draw m]"
| "mark_of e = []"

definition view :: "event list \<Rightarrow> mark list" where
  "view es = concat (map mark_of es)"

fun drawn :: "mark list \<Rightarrow> mesh list" where
  "drawn [] = []"
| "drawn (Draw m # ks) = m # drawn ks"
| "drawn (k # ks) = drawn ks"

text \<open>The placements and the draw calls alone.\<close>

fun placed_and_drawn :: "mark list \<Rightarrow> mark list" where
  "placed_and_drawn [] = []"
| "placed_and_drawn (UseTexture v # ks) = placed_and_drawn ks"
| "placed_and_drawn (k # ks) = k # placed_and_drawn ks"


text \<open>
  For each draw call, the mesh and whether \<open>model\<close> and whether \<open>bUseTexture\<close> has been
  written since the draw call before it; \<open>m\<close> and \<open>u\<close> say so for the first draw call.
\<close>

fun writes_before_draws :: "bool \<Rightarrow> bool \<Rightarrow> mark list \<Rightarrow> (mesh \<times> bool \<times> bool) list" where
  "writes_before_draws m u [] = []"
| "writes_before_draws m u (Draw x # ks) = (x, m, u) # writes_before_draws False False ks"
| "writes_before_draws m u (Model # ks) = writes_before_draws True u ks"
| "writes_before_draws m u (UseTexture v # ks) = writes_before_draws m True ks"

text \<open>
  The matrix of the claim's words: translate(position + offset) * Rz * Ry * Rx * scale, each
  rotation about its axis by the angle converted from degrees to radians.
\<close>

definition Rx :: "flt \<Rightarrow> mat4" where
  "Rx degrees = glm_rotate (FRadians degrees) (Vec3 (FLit 1) (FLit 0) (FLit 0))"

definition Ry :: "flt \<Rightarrow> mat4" where
  "Ry degrees = glm_rotate (FRadians degrees) (Vec3 (FLit 0) (FLit 1) (FLit 0))"

definition Rz :: "flt \<Rightarrow> mat4" where
  "Rz degrees = glm_rotate (FRadians degrees) (Vec3 (FLit 0) (FLit 0) (FLit 1))"

definition affine_model :: "vec3 \<Rightarrow> flt \<Rightarrow> flt \<Rightarrow> flt \<Rightarrow> vec3 \<Rightarrow> vec3 \<Rightarrow> mat4" where
  "affine_model scaleXYZ xdeg ydeg zdeg positionXYZ offset =
     mat4_mul (mat4_mul (mat4_mul (mat4_mul (glm_translate (vec3_add positionXYZ offset)) (Rz zdeg))
       (Ry ydeg)) (Rx xdeg)) (glm_scale scaleXYZ)"

text \<open>
  The two kinds of state from which a frame can return. With the shader manager there every
  setter writes; \<open>t\<close> adds that no more textures are registered than the array holds, so
  that no search of a tag leaves it. With the null shader manager every guarded setter writes
  nothing, and \<open>SetShaderMaterial\<close>, which has no guard, must find no material to stay away
  from the null pointer.
\<close>

definition live :: "bool \<Rightarrow> SceneManager \<Rightarrow> bool" where
  "live t s = (m_pShaderManager s \<noteq> NULL \<and> (t \<longrightarrow> m_loadedTextures s \<le> MAX_TEXTURES))"

definition idle :: "SceneManager \<Rightarrow> bool" where
  "idle s = (m_pShaderManager s = NULL \<and> m_objectMaterials s = [])"

text \<open>
  A run from \<open>s\<close> with result \<open>r\<close>, when it returns, has changed nothing but the record of
  calls, and the calls it added show the marks \<open>v\<close>; with \<open>t\<close> it does return.
\<close>

definition frame :: "bool \<Rightarrow> error + SceneManager \<Rightarrow> SceneManager \<Rightarrow> mark list \<Rightarrow> bool" where
  "frame t r s v =
     (case r of
        Inl e \<Rightarrow> \<not> t
      | Inr s' \<Rightarrow> s' = emit (new_calls s s') s \<and> view (new_calls s s') = v)"

text \<open>The writes of \<open>SetShaderMaterial\<close> when the shader manager is there.\<close>

definition material_sets :: "string \<Rightarrow> SceneManager \<Rightarrow> event list" where
  "material_sets tag s =
     (if m_objectMaterials s = [] then []
      else (let material = snd (FindMaterial tag uninitialized_material s)
            in [ShaderSet ''material.diffuseColor'' (UVec3 (diffuseColor material)),
                ShaderSet ''material.specularColor'' (UVec3 (specularColor material)),
                ShaderSet ''material.shininess'' (UFloat (shininess material))]))"

text \<open>The marks of one textured primitive, one coloured primitive, and a cable of three.\<close>

definition textured :: "mesh \<Rightarrow> mark list" where
  "textured m = [Model, UseTexture (UInt 1), Draw m]"

definition coloured :: "mesh \<Rightarrow> mark list" where
  "coloured m = [Model, UseTexture (UInt 0), Draw m]"

definition cable :: "mark list" where
  "cable = [UseTexture (UInt 0), Model, Draw CylinderMesh, Model, Draw CylinderMesh,
            Model, Draw CylinderMesh]"

definition keys :: "nat \<Rightarrow> mark list" where
  "keys n = concat (replicate n (coloured BoxMesh))"

definition RenderScene_marks :: "mark list" where
  "RenderScene_marks =
     textured PlaneMesh @ textured BoxMesh @ textured BoxMesh
     @ (textured BoxMesh @ textured PrismMesh @ textured BoxMesh @ textured PrismMesh)
     @ (textured BoxMesh @ coloured BoxMesh @ coloured BoxMesh)
     @ textured BoxMesh
     @ (textured BoxMesh @ coloured BoxMesh @ coloured BoxMesh @ coloured BoxMesh @ coloured BoxMesh)
     @ (coloured BoxMesh @ coloured BoxMesh @ coloured BoxMesh)
     @ cable
     @ (coloured BoxMesh @ coloured BoxMesh @ keys 61)
     @ cable"

section \<open>What the claims about RenderScene name\<close>

text \<open>The keys the rows from \<open>row\<close> on hold: four rows of 14, then the row of 5.\<close>

definition keys_from :: "int \<Rightarrow> nat" where
  "keys_from row = (if row < 4 then 14 * nat (4 - row) + 5 else if row < 5 then 5 else 0)"

text \<open>
  The meshes of a frame, one line for each part of the scene: the plane, the main body, the
  back base, the feet, the floppy drive, the CRT panel, the ProFile, the mouse, its cable,
  the keyboard (2 body boxes, 61 keys) and its cable.
\<close>

definition RenderScene_meshes :: "mesh list" where
  "RenderScene_meshes =
     [PlaneMesh]
     @ [BoxMesh]
     @ [BoxMesh]
     @ [BoxMesh, PrismMesh, BoxMesh, PrismMesh]
     @ replicate 3 BoxMesh
     @ [BoxMesh]
     @ replicate 5 BoxMesh
     @ replicate 3 BoxMesh
     @ replicate 3 CylinderMesh
     @ (replicate 2 BoxMesh @ replicate 61 BoxMesh)
     @ replicate 3 CylinderMesh"




text \<open>The calls a run with result \<open>r\<close> has added; none when it does not return.\<close>

definition result_calls :: "error + SceneManager \<Rightarrow> SceneManager \<Rightarrow> event list" where
  "result_calls r s = (case r of Inr s' \<Rightarrow> new_calls s s' | Inl e \<Rightarrow> [])"

section \<open>What the claims about CreateGLTexture name\<close>

text \<open>The file decodes and has 3 or 4 colour channels.\<close>

definition supported :: "SceneManager \<Rightarrow> string \<Rightarrow> bool" where
  "supported s filename =
     (case files s filename of
        None \<Rightarrow> False
      | Some img \<Rightarrow> img_colorChannels img = 3 \<or> img_colorChannels img = 4)"

text \<open>The console statements of one call, by outcome.\<close>

definition CreateGLTexture_console :: "SceneManager \<Rightarrow> string \<Rightarrow> piece list list" where
  "CreateGLTexture_console s filename =
     [[Str ''Runtime working directory: '', Str (cwd s)],
      [Str ''Attemping to load image: '', Str filename]]
     @ (case files s filename of
          None \<Rightarrow> [[Str ''Could not load image:'', Str filename]]
        | Some img \<Rightarrow>
            [[Str ''Successfully loaded image:'', Str filename,
              Str '', width:'', Num (img_width img), Str '', height:'', Num (img_height img),
              Str '', channels:'', Num (img_colorChannels img)]]
            @ (if img_colorChannels img = 3 \<or> img_colorChannels img = 4 then []
               else [[Str ''Not implemented to handle image with '', Num (img_colorChannels img),
                      Str '' channels'']]))"

section \<open>What the claims about the other operations name\<close>

text \<open>The next \<open>k\<close> names of the driver.\<close>

definition fresh_names :: "SceneManager \<Rightarrow> nat \<Rightarrow> nat list" where
  "fresh_names s k = map (\<lambda>j. gl_names s (gl_count s + j)) [0..<k]"

text \<open>The uniform name \<open>n\<close> starts with \<open>prefix\<close>.\<close>

definition of_light :: "string \<Rightarrow> string \<Rightarrow> bool" where
  "of_light prefix n = (take (length prefix) n = prefix)"

section \<open>Example states\<close>

definition example_h :: SceneManager_h where
  "example_h =
     \<lparr>default_offset = Vec3 (FLit 0) (FLit 0) (FLit 0),
      default_keyScale = Vec3 (FLit 0.3) (FLit 0.1) (FLit 0.3)\<rparr>"

text \<open>
  A SceneManager as constructed, with a shader manager, no texture and no material yet; of
  the three texture files of \<open>PrepareScene\<close> the first decodes to RGB, the second to a
  two-channel image and the third is missing.
\<close>

definition example_files :: "string \<Rightarrow> image option" where
  "example_files name =
     (if name = ''textures/computer_case_texture_2.jpg''
      then Some \<lparr>img_width = 64, img_height = 32, img_colorChannels = 3\<rparr>
      else if name = ''textures/crt_on_texture_1.jpg''
      then Some \<lparr>img_width = 8, img_height = 8, img_colorChannels = 2\<rparr>
      else None)"

definition example_scene :: SceneManager where
  "example_scene =
     \<lparr>m_pShaderManager = ShaderManagerObject,
      m_textureIDs = (\<lambda>i. \<lparr>tex_ID = 0, tex_tag = []\<rparr>),
      m_loadedTextures = 0,
      m_objectMaterials = [],
      calls = [],
      files = example_files,
      cwd = ''C:/scene'',
      gl_names = Suc,
      gl_count = 0\<rparr>"

text \<open>The same SceneManager constructed with the null shader manager.\<close>

definition null_scene :: SceneManager where
  "null_scene = example_scene\<lparr>m_pShaderManager := NULL\<rparr>"

text \<open>A SceneManager with two textures registered, the driver having handed out two names.\<close>

definition two_textures :: SceneManager where
  "two_textures =
     example_scene\<lparr>m_textureIDs := (\<lambda>i. if i = 0 then \<lparr>tex_ID = 1, tex_tag = ''ComputerCase''\<rparr>
                                        else if i = 1 then \<lparr>tex_ID = 2, tex_tag = ''TableTexture''\<rparr>
                                        else \<lparr>tex_ID = 0, tex_tag = []\<rparr>),
                   m_loadedTextures := 2, gl_count := 2\<rparr>"

section \<open>Texture registration\<close>

lemma emit_fields [simp]:
  "m_pShaderManager (emit es s) = m_pShaderManager s"
  "m_textureIDs (emit es s) = m_textureIDs s"
  "m_loadedTextures (emit es s) = m_loadedTextures s"
  "m_objectMaterials (emit es s) = m_objectMaterials s"
  "calls (emit es s) = calls s @ es"
  "files (emit es s) = files s"
  "cwd (emit es s) = cwd s"
  "gl_names (emit es s) = gl_names s"
  "gl_count (emit es s) = gl_count s"
  by (simp_all add: emit_def)

lemma new_calls_append [simp]: "calls s' = calls s @ es \<Longrightarrow> new_calls s s' = es"
  by (simp add: new_calls_def)

lemma glGenTextures_eq:
  "glGenTextures s = (gl_names s (gl_count s), emit [GlGenTextures (gl_names s (gl_count s))] (s\<lparr>gl_count := gl_count s + 1\<rparr>))"
  by (simp add: glGenTextures_def Let_def)

text \<open>
  Claim C1. A call of \<open>CreateGLTexture\<close> that returns true has written the generated texture
  name and the tag into the slot at the old \<open>m_loadedTextures\<close>, left every other slot as it
  was and added one to \<open>m_loadedTextures\<close>; the name is the one name the call generated. A
  call that returns false leaves \<open>m_textureIDs\<close> and \<open>m_loadedTextures\<close> as they were.
\<close>

theorem CreateGLTexture_registers_or_leaves:
  "(\<forall>s'. CreateGLTexture filename tag s = Inr (True, s') \<longrightarrow>
      m_loadedTextures s' = m_loadedTextures s + 1 \<and>
      m_textureIDs s' = (m_textureIDs s)
        (nat (m_loadedTextures s) :=
           (m_textureIDs s (nat (m_loadedTextures s)))\<lparr>tex_ID := gl_names s (gl_count s), tex_tag := tag\<rparr>) \<and>
      generated (new_calls s s') = [gl_names s (gl_count s)])
   \<and> (\<forall>s'. CreateGLTexture filename tag s = Inr (False, s') \<longrightarrow>
      m_textureIDs s' = m_textureIDs s \<and> m_loadedTextures s' = m_loadedTextures s)"
  by (auto simp: CreateGLTexture_def Let_def glGenTextures_eq split: option.splits if_splits)

text \<open>
  Claim C2. \<open>CreateGLTexture\<close> returns true exactly when the file decodes and has 3 or 4
  colour channels, and false for every other file; the console statements of each outcome
  are those of \<open>CreateGLTexture_console\<close>, never none. Returning true needs a free slot (the
  write into \<open>m_textureIDs\<close> is within the array); returning false and the converse do not.
\<close>

theorem CreateGLTexture_result:
  "(0 \<le> m_loadedTextures s \<and> m_loadedTextures s < 16 \<longrightarrow>
      (\<exists>s'. CreateGLTexture filename tag s = Inr (supported s filename, s')))
   \<and> (\<forall>s'. CreateGLTexture filename tag s = Inr (True, s') \<longrightarrow> supported s filename)
   \<and> (\<not> supported s filename \<longrightarrow> (\<exists>s'. CreateGLTexture filename tag s = Inr (False, s')))
   \<and> (\<forall>b s'. CreateGLTexture filename tag s = Inr (b, s') \<longrightarrow>
         console (new_calls s s') = CreateGLTexture_console s filename)"
  by (auto simp: CreateGLTexture_def Let_def glGenTextures_eq supported_def MAX_TEXTURES_def
        CreateGLTexture_console_def split: option.splits if_splits)

theorem CreateGLTexture_result_witness:
  "(\<exists>s'. CreateGLTexture ''textures/computer_case_texture_2.jpg'' ''ComputerCase'' example_scene = Inr (True, s'))
   \<and> (\<exists>s'. CreateGLTexture ''textures/crt_on_texture_1.jpg'' ''CRTScreen'' example_scene = Inr (False, s'))
   \<and> (\<exists>s'. CreateGLTexture ''textures/table_texture_1.jpeg'' ''TableTexture'' example_scene = Inr (False, s'))"
  using CreateGLTexture_result [of example_scene "''textures/computer_case_texture_2.jpg''" "''ComputerCase''"]
    CreateGLTexture_result [of example_scene "''textures/crt_on_texture_1.jpg''" "''CRTScreen''"]
    CreateGLTexture_result [of example_scene "''textures/table_texture_1.jpeg''" "''TableTexture''"]
  by (simp add: supported_def example_scene_def example_files_def)

text \<open>
  Claim C9. On a file it supports, \<open>CreateGLTexture\<close> writes the slot at \<open>m_loadedTextures\<close>
  whatever that index is: with fewer than 16 textures loaded the write is within the array and
  the call returns true; otherwise no check stops it and the write is outside the array.
\<close>

theorem CreateGLTexture_index_unchecked:
  "supported s filename \<longrightarrow>
     (0 \<le> m_loadedTextures s \<and> m_loadedTextures s < 16 \<longrightarrow>
        (\<exists>s'. CreateGLTexture filename tag s = Inr (True, s')
           \<and> tex_tag (m_textureIDs s' (nat (m_loadedTextures s))) = tag
           \<and> tex_ID (m_textureIDs s' (nat (m_loadedTextures s))) = gl_names s (gl_count s)
           \<and> m_loadedTextures s' = m_loadedTextures s + 1))
     \<and> (\<not> (0 \<le> m_loadedTextures s \<and> m_loadedTextures s < 16) \<longrightarrow>
          CreateGLTexture filename tag s = Inl ArrayIndexOutOfBounds)"
  by (auto simp: CreateGLTexture_def Let_def glGenTextures_eq supported_def MAX_TEXTURES_def
        split: option.splits if_splits)

theorem CreateGLTexture_index_unchecked_witness:
  "(\<exists>s'. CreateGLTexture ''textures/computer_case_texture_2.jpg'' ''ComputerCase'' example_scene = Inr (True, s')
      \<and> tex_tag (m_textureIDs s' 0) = ''ComputerCase'' \<and> tex_ID (m_textureIDs s' 0) = 1
      \<and> m_loadedTextures s' = 1)
   \<and> CreateGLTexture ''textures/computer_case_texture_2.jpg'' ''ComputerCase''
        (example_scene\<lparr>m_loadedTextures := 16\<rparr>) = Inl ArrayIndexOutOfBounds"
  using CreateGLTexture_index_unchecked [of example_scene "''textures/computer_case_texture_2.jpg''" "''ComputerCase''"]
    CreateGLTexture_index_unchecked [of "example_scene\<lparr>m_loadedTextures := 16\<rparr>"
      "''textures/computer_case_texture_2.jpg''" "''ComputerCase''"]
  by (simp add: supported_def example_scene_def example_files_def)

theorem CreateGLTexture_registers_or_leaves_witness:
  "(\<exists>s'. CreateGLTexture ''textures/computer_case_texture_2.jpg'' ''ComputerCase'' example_scene = Inr (True, s')
      \<and> m_loadedTextures s' = 1 \<and> m_textureIDs s' 0 = \<lparr>tex_ID = 1, tex_tag = ''ComputerCase''\<rparr>
      \<and> generated (new_calls example_scene s') = [1])
   \<and> (\<exists>s'. CreateGLTexture ''textures/crt_on_texture_1.jpg'' ''CRTScreen'' example_scene = Inr (False, s')
      \<and> m_loadedTextures s' = 0 \<and> m_textureIDs s' = m_textureIDs example_scene)"
proof -
  obtain s1 where 1: "CreateGLTexture ''textures/computer_case_texture_2.jpg'' ''ComputerCase'' example_scene = Inr (True, s1)"
    by (simp add: CreateGLTexture_def Let_def glGenTextures_eq example_scene_def example_files_def MAX_TEXTURES_def)
  obtain s2 where 2: "CreateGLTexture ''textures/crt_on_texture_1.jpg'' ''CRTScreen'' example_scene = Inr (False, s2)"
    by (simp add: CreateGLTexture_def Let_def glGenTextures_eq example_scene_def example_files_def MAX_TEXTURES_def)
  from 1 CreateGLTexture_registers_or_leaves [of "''textures/computer_case_texture_2.jpg''" "''ComputerCase''" example_scene]
  have "m_loadedTextures s1 = 1 \<and> m_textureIDs s1 0 = \<lparr>tex_ID = 1, tex_tag = ''ComputerCase''\<rparr>
      \<and> generated (new_calls example_scene s1) = [1]"
    by (simp add: example_scene_def)
  moreover from 2 CreateGLTexture_registers_or_leaves [of "''textures/crt_on_texture_1.jpg''" "''CRTScreen''" example_scene]
  have "m_loadedTextures s2 = 0 \<and> m_textureIDs s2 = m_textureIDs example_scene"
    by (simp add: example_scene_def)
  ultimately show ?thesis using 1 2 by blast
qed

lemma DestroyGLTextures_loop_effect:
  "0 \<le> i \<Longrightarrow> m_loadedTextures s \<le> MAX_TEXTURES \<Longrightarrow>
   \<exists>s'. DestroyGLTextures_loop i s = Inr s'
     \<and> s' = s\<lparr>m_textureIDs := m_textureIDs s', calls := calls s', gl_count := gl_count s'\<rparr>
     \<and> gl_count s' = gl_count s + nat (m_loadedTextures s - i)
     \<and> calls s' = calls s @ map GlGenTextures (fresh_names s (nat (m_loadedTextures s - i)))
     \<and> (\<forall>j. tex_tag (m_textureIDs s' j) = tex_tag (m_textureIDs s j))
     \<and> (\<forall>j. tex_ID (m_textureIDs s' j) =
            (if i \<le> int j \<and> int j < m_loadedTextures s then gl_names s (gl_count s + (j - nat i))
             else tex_ID (m_textureIDs s j)))"
proof (induction i s rule: DestroyGLTextures_loop.induct)
  case (1 i s)
  show ?case
  proof (cases "i < m_loadedTextures s")
    case False
    then show ?thesis
      by (subst DestroyGLTextures_loop.simps) (simp add: fresh_names_def)
  next
    case True
    define name where "name = gl_names s (gl_count s)"
    define s1 where "s1 = emit [GlGenTextures name] (s\<lparr>gl_count := gl_count s + 1\<rparr>)"
    define s2 where "s2 = s1\<lparr>m_textureIDs := (m_textureIDs s1)(nat i := (m_textureIDs s1 (nat i))\<lparr>tex_ID := name\<rparr>)\<rparr>"
    have g: "glGenTextures s = (name, s1)"
      by (simp add: glGenTextures_def Let_def name_def s1_def)
    have inb: "0 \<le> i \<and> i < MAX_TEXTURES" using True "1.prems" by simp
    have step: "DestroyGLTextures_loop i s = DestroyGLTextures_loop (i + 1) s2"
      using True inb g by (subst DestroyGLTextures_loop.simps) (simp add: s2_def)
    have n2: "m_loadedTextures s2 = m_loadedTextures s" by (simp add: s2_def s1_def emit_def)
    have "\<exists>s'. DestroyGLTextures_loop (i + 1) s2 = Inr s'
     \<and> s' = s2\<lparr>m_textureIDs := m_textureIDs s', calls := calls s', gl_count := gl_count s'\<rparr>
     \<and> gl_count s' = gl_count s2 + nat (m_loadedTextures s2 - (i + 1))
     \<and> calls s' = calls s2 @ map GlGenTextures (fresh_names s2 (nat (m_loadedTextures s2 - (i + 1))))
     \<and> (\<forall>j. tex_tag (m_textureIDs s' j) = tex_tag (m_textureIDs s2 j))
     \<and> (\<forall>j. tex_ID (m_textureIDs s' j) =
            (if i + 1 \<le> int j \<and> int j < m_loadedTextures s2 then gl_names s2 (gl_count s2 + (j - nat (i + 1)))
             else tex_ID (m_textureIDs s2 j)))"
      unfolding s2_def
      by (rule "1.IH" [OF True inb g [symmetric] refl])
         (use inb "1.prems" in \<open>simp_all add: s1_def\<close>)
    then obtain s' where r: "DestroyGLTextures_loop (i + 1) s2 = Inr s'"
      and frame: "s' = s2\<lparr>m_textureIDs := m_textureIDs s', calls := calls s', gl_count := gl_count s'\<rparr>"
      and cnt: "gl_count s' = gl_count s2 + nat (m_loadedTextures s2 - (i + 1))"
      and cl: "calls s' = calls s2 @ map GlGenTextures (fresh_names s2 (nat (m_loadedTextures s2 - (i + 1))))"
      and tg: "\<forall>j. tex_tag (m_textureIDs s' j) = tex_tag (m_textureIDs s2 j)"
      and ids: "\<forall>j. tex_ID (m_textureIDs s' j) =
            (if i + 1 \<le> int j \<and> int j < m_loadedTextures s2 then gl_names s2 (gl_count s2 + (j - nat (i + 1)))
             else tex_ID (m_textureIDs s2 j))"
      by blast
    have k: "nat (m_loadedTextures s - i) = Suc (nat (m_loadedTextures s - (i + 1)))"
      using True by linarith
    have fr: "fresh_names s (Suc k) = name # fresh_names s2 k" for k
      by (simp add: fresh_names_def s2_def s1_def emit_def name_def upt_conv_Cons map_Suc_upt [symmetric] del: upt_Suc)
    have a: "s' = s\<lparr>m_textureIDs := m_textureIDs s', calls := calls s', gl_count := gl_count s'\<rparr>"
      by (subst frame) (simp add: s2_def s1_def emit_def)
    have b: "gl_count s' = gl_count s + nat (m_loadedTextures s - i)"
      using cnt k n2 by (simp add: s2_def s1_def emit_def)
    have c: "calls s' = calls s @ map GlGenTextures (fresh_names s (nat (m_loadedTextures s - i)))"
      using cl n2 by (simp add: k fr) (simp add: s2_def s1_def emit_def)
    have d: "\<forall>j. tex_tag (m_textureIDs s' j) = tex_tag (m_textureIDs s j)"
      using tg by (simp add: s2_def s1_def emit_def)
    have e: "\<forall>j. tex_ID (m_textureIDs s' j) =
            (if i \<le> int j \<and> int j < m_loadedTextures s then gl_names s (gl_count s + (j - nat i))
             else tex_ID (m_textureIDs s j))"
    proof
      fix j
      show "tex_ID (m_textureIDs s' j) =
            (if i \<le> int j \<and> int j < m_loadedTextures s then gl_names s (gl_count s + (j - nat i))
             else tex_ID (m_textureIDs s j))"
      proof (cases "int j = i")
        case True
        then have "j = nat i" by simp
        with ids True \<open>i < m_loadedTextures s\<close> show ?thesis
          by (simp add: s2_def s1_def emit_def name_def)
      next
        case False
        then have ne: "j \<noteq> nat i" using inb by auto
        show ?thesis
        proof (cases "i + 1 \<le> int j \<and> int j < m_loadedTextures s")
          case True
          then have "Suc (j - nat (i + 1)) = j - nat i" using inb by linarith
          then have eq: "gl_count s2 + (j - nat (i + 1)) = gl_count s + (j - nat i)"
            by (simp add: s2_def s1_def emit_def)
          have gn: "gl_names s2 = gl_names s" by (simp add: s2_def s1_def emit_def)
          from ids True n2 have "tex_ID (m_textureIDs s' j) = gl_names s2 (gl_count s2 + (j - nat (i + 1)))"
            by simp
          with eq gn True show ?thesis by simp
        next
          case F2: False
          with False have out: "\<not> (i \<le> int j \<and> int j < m_loadedTextures s)" by linarith
          from ids F2 n2 have "tex_ID (m_textureIDs s' j) = tex_ID (m_textureIDs s2 j)" by auto
          with ne out show ?thesis
            by (auto simp: s2_def s1_def emit_def)
        qed
      qed
    qed
    from step r a b c d e show ?thesis by simp
  qed
qed

text \<open>
  Claim C8. \<open>DestroyGLTextures\<close> makes no call but \<open>glGenTextures\<close>, once for each of the first
  \<open>m_loadedTextures\<close> slots: the slot's ID becomes the name the driver generates then, every
  tag and \<open>m_loadedTextures\<close> stay, and the slots past \<open>m_loadedTextures\<close> keep their IDs
  (for at most 16 loaded textures, all the array holds).
\<close>

theorem DestroyGLTextures_regenerates:
  "m_loadedTextures s \<le> 16 \<Longrightarrow>
   \<exists>s'. DestroyGLTextures s = Inr s'
     \<and> m_loadedTextures s' = m_loadedTextures s
     \<and> (\<forall>j. tex_tag (m_textureIDs s' j) = tex_tag (m_textureIDs s j))
     \<and> (\<forall>j. tex_ID (m_textureIDs s' j) =
            (if int j < m_loadedTextures s then gl_names s (gl_count s + j)
             else tex_ID (m_textureIDs s j)))
     \<and> new_calls s s' = map GlGenTextures (fresh_names s (nat (m_loadedTextures s)))"
proof -
  assume "m_loadedTextures s \<le> 16"
  then have "m_loadedTextures s \<le> MAX_TEXTURES" by (simp add: MAX_TEXTURES_def)
  from DestroyGLTextures_loop_effect [OF order_refl this]
  obtain s' where r: "DestroyGLTextures_loop 0 s = Inr s'"
    and frame: "s' = s\<lparr>m_textureIDs := m_textureIDs s', calls := calls s', gl_count := gl_count s'\<rparr>"
    and cl: "calls s' = calls s @ map GlGenTextures (fresh_names s (nat (m_loadedTextures s - 0)))"
    and tg: "\<forall>j. tex_tag (m_textureIDs s' j) = tex_tag (m_textureIDs s j)"
    and ids: "\<forall>j. tex_ID (m_textureIDs s' j) =
            (if 0 \<le> int j \<and> int j < m_loadedTextures s then gl_names s (gl_count s + (j - nat 0))
             else tex_ID (m_textureIDs s j))"
    by blast
  have "m_loadedTextures s' = m_loadedTextures s" by (subst frame) simp
  with r cl tg ids show ?thesis by (simp add: DestroyGLTextures_def)
qed

theorem DestroyGLTextures_regenerates_witness:
  "m_loadedTextures two_textures \<le> 16 \<and>
   (\<exists>s'. DestroyGLTextures two_textures = Inr s'
     \<and> m_loadedTextures s' = 2
     \<and> tex_tag (m_textureIDs s' 0) = ''ComputerCase'' \<and> tex_tag (m_textureIDs s' 1) = ''TableTexture''
     \<and> tex_ID (m_textureIDs s' 0) = 3 \<and> tex_ID (m_textureIDs s' 1) = 4
     \<and> tex_ID (m_textureIDs s' 2) = 0
     \<and> new_calls two_textures s' = [GlGenTextures 3, GlGenTextures 4])"
proof -
  have h: "m_loadedTextures two_textures \<le> 16"
    by (simp add: two_textures_def example_scene_def)
  have f: "fresh_names two_textures (nat 2) = [3, 4]"
    by (simp add: fresh_names_def two_textures_def example_scene_def upt_conv_Cons)
  from DestroyGLTextures_regenerates [OF h]
  obtain s' where "DestroyGLTextures two_textures = Inr s'"
    and "m_loadedTextures s' = m_loadedTextures two_textures"
    and "\<forall>j. tex_tag (m_textureIDs s' j) = tex_tag (m_textureIDs two_textures j)"
    and "\<forall>j. tex_ID (m_textureIDs s' j) =
            (if int j < m_loadedTextures two_textures then gl_names two_textures (gl_count two_textures + j)
             else tex_ID (m_textureIDs two_textures j))"
    and "new_calls two_textures s' = map GlGenTextures (fresh_names two_textures (nat (m_loadedTextures two_textures)))"
    by blast
  then have "DestroyGLTextures two_textures = Inr s'
     \<and> m_loadedTextures s' = 2
     \<and> tex_tag (m_textureIDs s' 0) = ''ComputerCase'' \<and> tex_tag (m_textureIDs s' 1) = ''TableTexture''
     \<and> tex_ID (m_textureIDs s' 0) = 3 \<and> tex_ID (m_textureIDs s' 1) = 4
     \<and> tex_ID (m_textureIDs s' 2) = 0
     \<and> new_calls two_textures s' = [GlGenTextures 3, GlGenTextures 4]"
    using f by (simp add: two_textures_def example_scene_def)
  with h show ?thesis by blast
qed

section \<open>Materials and uniforms\<close>

lemma FindMaterial_loop_no_match:
  "tag \<notin> mat_tag ` set ms \<Longrightarrow> FindMaterial_loop tag ms index bFound material = material"
proof (induction tag ms index bFound material rule: FindMaterial_loop.induct)
  case (1 tag ms index bFound material)
  show ?case
  proof (cases "0 \<le> index \<and> index < int (length ms) \<and> bFound = False")
    case True
    then have "nat index < length ms" by linarith
    then have "ms ! nat index \<in> set ms" by (rule nth_mem)
    with "1.prems" have ne: "mat_tag (ms ! nat index) \<noteq> tag" by blast
    from True ne "1.IH"(2) "1.prems" show ?thesis
      by (subst FindMaterial_loop.simps) simp
  next
    case False
    then show ?thesis by (subst FindMaterial_loop.simps) auto
  qed
qed

text \<open>
  Claim C7. \<open>FindMaterial\<close> returns false exactly when the materials list is empty. With no
  material of the tag it hands the \<open>material\<close> parameter back as it got it, and with a list
  that is not empty it still returns true; so \<open>SetShaderMaterial\<close>, called with a tag that no
  material of a list that is not empty has, writes the three material uniforms from its
  local \<open>OBJECT_MATERIAL\<close>, which nothing has written (the shader manager being there).
\<close>

theorem FindMaterial_true_without_match:
  "(fst (FindMaterial tag material s) = False \<longleftrightarrow> m_objectMaterials s = [])
   \<and> (tag \<notin> mat_tag ` set (m_objectMaterials s) \<longrightarrow> snd (FindMaterial tag material s) = material)
   \<and> (m_objectMaterials s \<noteq> [] \<and> tag \<notin> mat_tag ` set (m_objectMaterials s)
        \<and> m_pShaderManager s \<noteq> NULL \<longrightarrow>
        FindMaterial tag uninitialized_material s = (True, uninitialized_material)
        \<and> SetShaderMaterial tag s =
            Inr (emit [ShaderSet ''material.diffuseColor'' (UVec3 (diffuseColor uninitialized_material)),
                       ShaderSet ''material.specularColor'' (UVec3 (specularColor uninitialized_material)),
                       ShaderSet ''material.shininess'' (UFloat (shininess uninitialized_material))] s))"
  by (auto simp: FindMaterial_def SetShaderMaterial_def shader_set_def FindMaterial_loop_no_match)

theorem FindMaterial_true_without_match_witness:
  "fst (FindMaterial ''glass'' uninitialized_material example_scene) = False
   \<and> FindMaterial ''glass'' uninitialized_material (DefineObjectMaterials example_scene) = (True, uninitialized_material)
   \<and> SetShaderMaterial ''glass'' (DefineObjectMaterials example_scene) =
        Inr (emit [ShaderSet ''material.diffuseColor'' (UVec3 (Vec3 FIndeterminate FIndeterminate FIndeterminate)),
                   ShaderSet ''material.specularColor'' (UVec3 (Vec3 FIndeterminate FIndeterminate FIndeterminate)),
                   ShaderSet ''material.shininess'' (UFloat FIndeterminate)] (DefineObjectMaterials example_scene))"
  using FindMaterial_true_without_match [of "''glass''" uninitialized_material example_scene]
    FindMaterial_true_without_match [of "''glass''" uninitialized_material "DefineObjectMaterials example_scene"]
  by (simp add: example_scene_def DefineObjectMaterials_def Let_def uninitialized_material_def)

lemma uniform_append:
  "uniform n (es @ fs) = (case uniform n fs of Some v \<Rightarrow> Some v | None \<Rightarrow> uniform n es)"
  by (induction es) (auto split: option.splits)

text \<open>
  Claim C4. With a shader manager, \<open>SetTransformations\<close> makes one call, which sets the uniform
  \<open>model\<close> to translate(position + offset) * Rz * Ry * Rx * scale with the three angles
  converted to radians; with the null shader manager it makes no call.
\<close>

theorem SetTransformations_model:
  "(m_pShaderManager s \<noteq> NULL \<longrightarrow>
      SetTransformations scaleXYZ xdeg ydeg zdeg positionXYZ offset s =
        emit [ShaderSet ''model'' (UMat4 (affine_model scaleXYZ xdeg ydeg zdeg positionXYZ offset))] s
      \<and> uniform ''model'' (calls (SetTransformations scaleXYZ xdeg ydeg zdeg positionXYZ offset s)) =
          Some (UMat4 (affine_model scaleXYZ xdeg ydeg zdeg positionXYZ offset)))
   \<and> (m_pShaderManager s = NULL \<longrightarrow>
        SetTransformations scaleXYZ xdeg ydeg zdeg positionXYZ offset s = s)"
  by (simp add: SetTransformations_def Let_def affine_model_def Rx_def Ry_def Rz_def uniform_append)

theorem SetTransformations_model_witness:
  "SetTransformations (Vec3 (FLit 1) (FLit 1) (FLit 0.5)) (FLit (- 90)) (FLit 90) (FLit 0)
     (Vec3 (FLit 3) (FLit 0.25) (FLit 0.7)) (Vec3 (FLit 0) (FLit 0) (FLit 0)) example_scene =
   emit [ShaderSet ''model'' (UMat4
     (mat4_mul (mat4_mul (mat4_mul (mat4_mul
        (glm_translate (Vec3 (FAdd (FLit 3) (FLit 0)) (FAdd (FLit 0.25) (FLit 0)) (FAdd (FLit 0.7) (FLit 0))))
        (glm_rotate (FRadians (FLit 0)) (Vec3 (FLit 0) (FLit 0) (FLit 1))))
        (glm_rotate (FRadians (FLit 90)) (Vec3 (FLit 0) (FLit 1) (FLit 0))))
        (glm_rotate (FRadians (FLit (- 90))) (Vec3 (FLit 1) (FLit 0) (FLit 0))))
        (glm_scale (Vec3 (FLit 1) (FLit 1) (FLit 0.5)))))] example_scene
   \<and> SetTransformations (Vec3 (FLit 1) (FLit 1) (FLit 0.5)) (FLit (- 90)) (FLit 90) (FLit 0)
     (Vec3 (FLit 3) (FLit 0.25) (FLit 0.7)) (Vec3 (FLit 0) (FLit 0) (FLit 0))
     (example_scene\<lparr>m_pShaderManager := NULL\<rparr>) = example_scene\<lparr>m_pShaderManager := NULL\<rparr>"
  using SetTransformations_model [of example_scene "Vec3 (FLit 1) (FLit 1) (FLit 0.5)" "FLit (- 90)" "FLit 90" "FLit 0"
      "Vec3 (FLit 3) (FLit 0.25) (FLit 0.7)" "Vec3 (FLit 0) (FLit 0) (FLit 0)"]
    SetTransformations_model [of "example_scene\<lparr>m_pShaderManager := NULL\<rparr>" "Vec3 (FLit 1) (FLit 1) (FLit 0.5)" "FLit (- 90)" "FLit 90" "FLit 0"
      "Vec3 (FLit 3) (FLit 0.25) (FLit 0.7)" "Vec3 (FLit 0) (FLit 0) (FLit 0)"]
  by (simp add: example_scene_def affine_model_def Rx_def Ry_def Rz_def)

text \<open>
  Claim C5. With a shader manager, \<open>SetupSceneLights\<close> puts \<open>pointLights[0]\<close> at
  (0.0, 9.5, 2.5) and \<open>pointLights[1]\<close> at (-1.25, 3.5, 3.0), sets \<open>bActive\<close> of both and
  \<open>bUseLighting\<close> to true, and every call it makes sets \<open>bUseLighting\<close> or a uniform of one
  of these two lights.
\<close>

theorem SetupSceneLights_two_point_lights:
  "m_pShaderManager s \<noteq> NULL \<Longrightarrow>
   \<exists>s'. SetupSceneLights s = Inr s' \<and> s' = emit (new_calls s s') s
     \<and> uniform ''pointLights[0].position'' (new_calls s s') = Some (UVec3 (Vec3 (FLit 0) (FLit 9.5) (FLit 2.5)))
     \<and> uniform ''pointLights[1].position'' (new_calls s s') = Some (UVec3 (Vec3 (FLit (- 1.25)) (FLit 3.5) (FLit 3)))
     \<and> uniform ''pointLights[0].bActive'' (new_calls s s') = Some (UBool True)
     \<and> uniform ''pointLights[1].bActive'' (new_calls s s') = Some (UBool True)
     \<and> uniform ''bUseLighting'' (new_calls s s') = Some (UBool True)
     \<and> (\<forall>e \<in> set (new_calls s s'). \<exists>n v. e = ShaderSet n v
            \<and> (n = ''bUseLighting'' \<or> of_light ''pointLights[0].'' n \<or> of_light ''pointLights[1].'' n))"
  by (simp add: SetupSceneLights_def shader_set_def of_light_def)

theorem SetupSceneLights_two_point_lights_witness:
  "m_pShaderManager example_scene \<noteq> NULL \<and>
   (\<exists>s'. SetupSceneLights example_scene = Inr s'
      \<and> uniform ''pointLights[0].position'' (calls s') = Some (UVec3 (Vec3 (FLit 0) (FLit 9.5) (FLit 2.5)))
      \<and> uniform ''pointLights[1].position'' (calls s') = Some (UVec3 (Vec3 (FLit (- 1.25)) (FLit 3.5) (FLit 3)))
      \<and> uniform ''pointLights[2].position'' (calls s') = None)"
proof -
  have h: "m_pShaderManager example_scene \<noteq> NULL" by (simp add: example_scene_def)
  from SetupSceneLights_two_point_lights [OF h]
  obtain s' where r: "SetupSceneLights example_scene = Inr s'"
    and p0: "uniform ''pointLights[0].position'' (new_calls example_scene s') = Some (UVec3 (Vec3 (FLit 0) (FLit 9.5) (FLit 2.5)))"
    and p1: "uniform ''pointLights[1].position'' (new_calls example_scene s') = Some (UVec3 (Vec3 (FLit (- 1.25)) (FLit 3.5) (FLit 3)))"
    by blast
  have n: "new_calls example_scene s' = calls s'"
    by (simp add: new_calls_def example_scene_def)
  from r have "uniform ''pointLights[2].position'' (calls s') = None"
    by (auto simp: SetupSceneLights_def shader_set_def example_scene_def)
  with h r p0 p1 n show ?thesis by auto
qed

section \<open>A frame\<close>

lemma live_emit [simp]: "live t (emit es s) = live t s"
  by (simp add: live_def)

lemma idle_emit [simp]: "idle (emit es s) = idle s"
  by (simp add: idle_def)

lemma emit_emit [simp]: "emit fs (emit es s) = emit (es @ fs) s"
  by (simp add: emit_def)

lemma emit_Nil [simp]: "emit [] s = s"
  by (simp add: emit_def)

lemma and_then_simps [simp]:
  "and_then (Inr v) f = f v"
  "and_then (Inl e) f = Inl e"
  by (simp_all add: and_then_def)

lemma view_simps [simp]:
  "view [] = []"
  "view (e # es) = mark_of e @ view es"
  "view (es @ fs) = view es @ view fs"
  by (simp_all add: view_def)

lemma new_calls_emit [simp]: "new_calls s (emit es s) = es"
  by (simp add: new_calls_def)

lemma frame_Inr_emit [simp]: "frame t (Inr (emit es s)) s v = (view es = v)"
  by (simp add: frame_def)

lemma frame_Inr_self [simp]: "frame t (Inr s) s v = (v = [])"
  using frame_Inr_emit [of t "[]" s v] by auto

lemma frame_Inl [simp]: "frame t (Inl e) s v = (\<not> t)"
  by (simp add: frame_def)

lemma frameE:
  assumes "frame t r s v"
  obtains (stops) e where "r = Inl e" and "\<not> t"
    | (returns) es where "r = Inr (emit es s)" and "view es = v"
  using assms by (cases r) (auto simp: frame_def)

lemma frame_and_then:
  assumes "frame t r s v" and "\<And>es. frame t (f (emit es s)) (emit es s) w"
  shows "frame t (and_then r f) s (v @ w)"
  using assms(1)
proof (cases rule: frameE)
  case (stops e)
  then show ?thesis by simp
next
  case (returns es)
  from assms(2) [of es] show ?thesis
  proof (cases rule: frameE)
    case (stops e)
    with returns show ?thesis by simp
  next
    case inner: (returns fs)
    with returns show ?thesis by simp
  qed
qed

lemma frame_from:
  assumes "frame t r (emit es s) v" and "view es @ v = vw"
  shows "frame t r s vw"
  using assms(1)
proof (cases rule: frameE)
  case (stops e)
  then show ?thesis by simp
next
  case (returns fs)
  with assms(2) show ?thesis by simp
qed

lemma texture_at_emit [simp]: "texture_at (emit es s) i = texture_at s i"
  by (simp add: texture_at_def)

lemma FindTextureSlot_loop_emit:
  "FindTextureSlot_loop tag (emit es s) textureSlot index bFound =
   FindTextureSlot_loop tag s textureSlot index bFound"
proof (induction tag s textureSlot index bFound rule: FindTextureSlot_loop.induct)
  case (1 tag s textureSlot index bFound)
  have L: "FindTextureSlot_loop tag (emit es s) textureSlot index bFound =
     (if index < m_loadedTextures s \<and> bFound = False then
        and_then (texture_at s index) (\<lambda>t.
          if tex_tag t = tag then FindTextureSlot_loop tag (emit es s) index index True
          else FindTextureSlot_loop tag (emit es s) textureSlot (index + 1) bFound)
      else Inr textureSlot)"
    by (subst FindTextureSlot_loop.simps) simp
  have R: "FindTextureSlot_loop tag s textureSlot index bFound =
     (if index < m_loadedTextures s \<and> bFound = False then
        and_then (texture_at s index) (\<lambda>t.
          if tex_tag t = tag then FindTextureSlot_loop tag s index index True
          else FindTextureSlot_loop tag s textureSlot (index + 1) bFound)
      else Inr textureSlot)"
    by (subst FindTextureSlot_loop.simps) simp
  show ?case
  proof (cases "index < m_loadedTextures s \<and> bFound = False")
    case False
    with L R show ?thesis by auto
  next
    case True
    show ?thesis
    proof (cases "texture_at s index")
      case (Inl e)
      with True L R show ?thesis by simp
    next
      case (Inr x)
      with True "1.IH"(1) [OF True, of x] "1.IH"(2) [OF True, of x] L R show ?thesis
        by simp
    qed
  qed
qed

lemma FindTextureSlot_emit [simp]: "FindTextureSlot tag (emit es s) = FindTextureSlot tag s"
  by (simp add: FindTextureSlot_def FindTextureSlot_loop_emit)

lemma texture_at_in_range:
  "0 \<le> i \<Longrightarrow> i < m_loadedTextures s \<Longrightarrow> m_loadedTextures s \<le> MAX_TEXTURES \<Longrightarrow>
   texture_at s i = Inr (m_textureIDs s (nat i))"
  by (simp add: texture_at_def)

lemma FindTextureSlot_loop_returns:
  "0 \<le> index \<Longrightarrow> m_loadedTextures s \<le> MAX_TEXTURES \<Longrightarrow>
   \<exists>k. FindTextureSlot_loop tag s textureSlot index bFound = Inr k"
proof (induction tag s textureSlot index bFound rule: FindTextureSlot_loop.induct)
  case (1 tag s textureSlot index bFound)
  show ?case
  proof (cases "index < m_loadedTextures s \<and> bFound = False")
    case False
    then show ?thesis by (subst FindTextureSlot_loop.simps) auto
  next
    case True
    with "1.prems" have t: "texture_at s index = Inr (m_textureIDs s (nat index))"
      by (simp add: texture_at_in_range)
    show ?thesis
    proof (cases "tex_tag (m_textureIDs s (nat index)) = tag")
      case m: True
      from "1.IH"(1) [OF True m "1.prems"] True t m show ?thesis
        by (subst FindTextureSlot_loop.simps) simp
    next
      case m: False
      from "1.prems" have "0 \<le> index + 1" by simp
      from "1.IH"(2) [OF True m this "1.prems"(2)] True t m show ?thesis
        by (subst FindTextureSlot_loop.simps) simp
    qed
  qed
qed

lemma FindTextureSlot_returns:
  "m_loadedTextures s \<le> MAX_TEXTURES \<Longrightarrow> \<exists>k. FindTextureSlot tag s = Inr k"
  using FindTextureSlot_loop_returns [of 0 s tag "- 1" False] by (simp add: FindTextureSlot_def)

text \<open>
  A function that searches the slot of \<open>tag\<close> is settled on the two results of the search.
\<close>

lemma by_slot:
  assumes "live t s"
    and "\<And>k. FindTextureSlot tag s = Inr k \<Longrightarrow> frame t r s v"
    and "\<And>e. FindTextureSlot tag s = Inl e \<Longrightarrow> \<exists>e'. r = Inl e'"
  shows "frame t r s v"
proof (cases "FindTextureSlot tag s")
  case (Inr k)
  then show ?thesis by (rule assms(2))
next
  case (Inl e)
  then obtain e' where r: "r = Inl e'" using assms(3) by blast
  have "\<not> t"
  proof
    assume t
    with assms(1) have "m_loadedTextures s \<le> MAX_TEXTURES" by (simp add: live_def)
    from FindTextureSlot_returns [OF this, of tag] Inl show False by simp
  qed
  with r show ?thesis by simp
qed

lemma SetTransformations_live:
  "live t s \<Longrightarrow> SetTransformations sc x y z p off s =
     emit [ShaderSet ''model'' (UMat4 (affine_model sc x y z p off))] s"
  by (auto simp: SetTransformations_def Let_def affine_model_def Rx_def Ry_def Rz_def live_def)

lemma SetShaderColor_live:
  "live t s \<Longrightarrow> SetShaderColor r g b a s =
     emit [ShaderSet ''bUseTexture'' (UInt 0), ShaderSet ''objectColor'' (UVec4 (Vec4 r g b a))] s"
  by (auto simp: SetShaderColor_def Let_def live_def)

lemma SetTextureUVScale_live:
  "live t s \<Longrightarrow> SetTextureUVScale u v s = emit [ShaderSet ''UVscale'' (UVec2 (Vec2 u v))] s"
  by (auto simp: SetTextureUVScale_def live_def)

lemma SetShaderTexture_live:
  "live t s \<Longrightarrow> SetShaderTexture tag s =
     (case FindTextureSlot tag s of
        Inl e \<Rightarrow> Inl e
      | Inr k \<Rightarrow> Inr (emit [ShaderSet ''bUseTexture'' (UInt 1),
                             ShaderSet ''objectTexture'' (USampler2D k)] s))"
  by (auto simp: SetShaderTexture_def Let_def live_def split: sum.splits)

lemma SetShaderMaterial_live:
  "live t s \<Longrightarrow> SetShaderMaterial tag s = Inr (emit (material_sets tag s) s)"
  by (auto simp: SetShaderMaterial_def material_sets_def shader_set_def FindMaterial_def Let_def live_def)

lemma view_material_sets [simp]: "view (material_sets tag s) = []"
  by (simp add: material_sets_def Let_def)

lemmas live_steps =
  SetTransformations_live SetShaderColor_live SetTextureUVScale_live SetShaderTexture_live
  SetShaderMaterial_live DrawMesh_call_def Let_def textured_def coloured_def cable_def

lemma DrawMainBody_live: "live t s \<Longrightarrow> frame t (DrawMainBody h s) s (textured BoxMesh)"
  by (rule by_slot [where tag = "''ComputerCase''"]) (simp_all add: DrawMainBody_def live_steps)

lemma DrawBackBase_live: "live t s \<Longrightarrow> frame t (DrawBackBase h s) s (textured BoxMesh)"
  by (rule by_slot [where tag = "''ComputerCase''"]) (simp_all add: DrawBackBase_def live_steps)

lemma DrawFeet_live:
  "live t s \<Longrightarrow> frame t (DrawFeet h s) s
     (textured BoxMesh @ textured PrismMesh @ textured BoxMesh @ textured PrismMesh)"
  by (rule by_slot [where tag = "''ComputerCase''"]) (simp_all add: DrawFeet_def live_steps)

lemma DrawFloppyDrive_live:
  "live t s \<Longrightarrow> frame t (DrawFloppyDrive h s) s (textured BoxMesh @ coloured BoxMesh @ coloured BoxMesh)"
  by (rule by_slot [where tag = "''ComputerCase''"]) (simp_all add: DrawFloppyDrive_def live_steps)

lemma DrawCRTPanel_live: "live t s \<Longrightarrow> frame t (DrawCRTPanel h s) s (textured BoxMesh)"
  by (rule by_slot [where tag = "''CRTScreen''"]) (simp_all add: DrawCRTPanel_def live_steps)

lemma DrawProFile_live:
  "live t s \<Longrightarrow> frame t (DrawProFile h s) s
     (textured BoxMesh @ coloured BoxMesh @ coloured BoxMesh @ coloured BoxMesh @ coloured BoxMesh)"
  by (rule by_slot [where tag = "''ComputerCase''"]) (simp_all add: DrawProFile_def live_steps)

lemma DrawMouse_live:
  "live t s \<Longrightarrow> \<exists>es. DrawMouse h s = emit es s
     \<and> view es = coloured BoxMesh @ coloured BoxMesh @ coloured BoxMesh"
  by (rule exI [where x = "new_calls s (DrawMouse h s)"]) (simp add: DrawMouse_def live_steps)

lemma DrawMouseCable_live: "live t s \<Longrightarrow> \<exists>es. DrawMouseCable h s = emit es s \<and> view es = cable"
  by (rule exI [where x = "new_calls s (DrawMouseCable h s)"]) (simp add: DrawMouseCable_def live_steps)

lemma DrawKeyboardCable_live: "live t s \<Longrightarrow> frame t (Inr (DrawKeyboardCable h s)) s cable"
  by (simp add: DrawKeyboardCable_def live_steps)

lemma DrawKey_live: "live t s \<Longrightarrow> frame t (DrawKey h x y z slopeDegrees keyScale s) s (coloured BoxMesh)"
  by (simp add: DrawKey_def live_steps)

text \<open>With the null shader manager and no material a function only draws.\<close>

lemma SetTransformations_idle: "idle s \<Longrightarrow> SetTransformations sc x y z p off s = s"
  by (auto simp: SetTransformations_def Let_def idle_def)

lemma SetShaderColor_idle: "idle s \<Longrightarrow> SetShaderColor r g b a s = s"
  by (auto simp: SetShaderColor_def Let_def idle_def)

lemma SetTextureUVScale_idle: "idle s \<Longrightarrow> SetTextureUVScale u v s = s"
  by (auto simp: SetTextureUVScale_def idle_def)

lemma SetShaderTexture_idle: "idle s \<Longrightarrow> SetShaderTexture tag s = Inr s"
  by (auto simp: SetShaderTexture_def idle_def)

lemma SetShaderMaterial_idle: "idle s \<Longrightarrow> SetShaderMaterial tag s = Inr s"
  by (auto simp: SetShaderMaterial_def idle_def)

lemmas idle_steps =
  SetTransformations_idle SetShaderColor_idle SetTextureUVScale_idle SetShaderTexture_idle
  SetShaderMaterial_idle DrawMesh_call_def Let_def

lemma DrawMainBody_idle: "idle s \<Longrightarrow> frame True (DrawMainBody h s) s [Draw BoxMesh]"
  by (simp add: DrawMainBody_def idle_steps)

lemma DrawBackBase_idle: "idle s \<Longrightarrow> frame True (DrawBackBase h s) s [Draw BoxMesh]"
  by (simp add: DrawBackBase_def idle_steps)

lemma DrawFeet_idle:
  "idle s \<Longrightarrow> frame True (DrawFeet h s) s [Draw BoxMesh, Draw PrismMesh, Draw BoxMesh, Draw PrismMesh]"
  by (simp add: DrawFeet_def idle_steps)

lemma DrawFloppyDrive_idle:
  "idle s \<Longrightarrow> frame True (DrawFloppyDrive h s) s [Draw BoxMesh, Draw BoxMesh, Draw BoxMesh]"
  by (simp add: DrawFloppyDrive_def idle_steps)

lemma DrawCRTPanel_idle: "idle s \<Longrightarrow> frame True (DrawCRTPanel h s) s [Draw BoxMesh]"
  by (simp add: DrawCRTPanel_def idle_steps)

lemma DrawProFile_idle:
  "idle s \<Longrightarrow> frame True (DrawProFile h s) s (replicate 5 (Draw BoxMesh))"
  by (simp add: DrawProFile_def idle_steps eval_nat_numeral)

lemma DrawMouse_idle:
  "idle s \<Longrightarrow> DrawMouse h s = emit [DrawMesh BoxMesh, DrawMesh BoxMesh, DrawMesh BoxMesh] s"
  by (simp add: DrawMouse_def idle_steps)

lemma DrawMouseCable_idle:
  "idle s \<Longrightarrow> DrawMouseCable h s = emit [DrawMesh CylinderMesh, DrawMesh CylinderMesh, DrawMesh CylinderMesh] s"
  by (simp add: DrawMouseCable_def idle_steps)

lemma DrawKeyboardCable_idle:
  "idle s \<Longrightarrow> frame True (Inr (DrawKeyboardCable h s)) s (replicate 3 (Draw CylinderMesh))"
  by (simp add: DrawKeyboardCable_def idle_steps eval_nat_numeral)

lemma DrawKey_idle: "idle s \<Longrightarrow> frame True (DrawKey h x y z slopeDegrees keyScale s) s [Draw BoxMesh]"
  by (simp add: DrawKey_def idle_steps)

text \<open>The loops of the keyboard, for marks \<open>kv\<close> of one key.\<close>

lemma DrawKeyboard_col_loop_frame:
  assumes "\<And>x y z sl ks es. frame t (DrawKey h x y z sl ks (emit es s)) (emit es s) kv"
  shows "frame t (DrawKeyboard_col_loop h keySpacingX keySpacingZ gridStartX gridStartZ y slopeDegrees cols row col s)
     s (concat (replicate (nat (cols - col)) kv))"
  using assms
proof (induction h keySpacingX keySpacingZ gridStartX gridStartZ y slopeDegrees cols row col s
    rule: DrawKeyboard_col_loop.induct)
  case (1 h keySpacingX keySpacingZ gridStartX gridStartZ y slopeDegrees cols row col s)
  have key: "frame t (DrawKey h x y z sl ks s) s kv" for x y z sl ks
    using "1.prems" [of x y z sl ks "[]"] by simp
  show ?case
  proof (cases "col < cols")
    case False
    then show ?thesis
      by (subst DrawKeyboard_col_loop.simps) simp
  next
    case True
    then have n: "nat (cols - col) = Suc (nat (cols - (col + 1)))" by linarith
    have "frame t (and_then
        (DrawKey h (FAdd gridStartX (FMul (FInt col) keySpacingX))
           (let adjustedY = y;
                adjustedY = (if row = 3 then FAdd adjustedY (FLit 0.1) else adjustedY);
                adjustedY = (if row = 2 then FAdd adjustedY (FLit 0.06) else adjustedY);
                adjustedY = (if row = 1 then FAdd adjustedY (FLit 0.02) else adjustedY)
            in (if row = 0 then FSub adjustedY (FLit 0.02) else adjustedY))
           (FSub gridStartZ (FMul (FInt row) keySpacingZ)) slopeDegrees (default_keyScale h) s)
        (\<lambda>s'. DrawKeyboard_col_loop h keySpacingX keySpacingZ gridStartX gridStartZ y slopeDegrees
                cols row (col + 1) s'))
      s (kv @ concat (replicate (nat (cols - (col + 1))) kv))"
    proof (rule frame_and_then [OF key])
      fix es
      show "frame t (DrawKeyboard_col_loop h keySpacingX keySpacingZ gridStartX gridStartZ y slopeDegrees
                cols row (col + 1) (emit es s)) (emit es s) (concat (replicate (nat (cols - (col + 1))) kv))"
        by (rule "1.IH" [OF True refl refl refl refl refl refl refl])
           (use "1.prems" in simp)
    qed
    with True show ?thesis
      by (subst DrawKeyboard_col_loop.simps) (simp add: n Let_def)
  qed
qed

lemma DrawKeyboard_special_loop_frame:
  assumes "\<And>x y z sl ks es. frame t (DrawKey h x y z sl ks (emit es s)) (emit es s) kv"
    and "0 \<le> i" and "length widths = 5"
  shows "frame t (DrawKeyboard_special_loop h widths spacing customRowY customZ slopeDegrees xCursor i s)
     s (concat (replicate (nat (5 - i)) kv))"
  using assms
proof (induction h widths spacing customRowY customZ slopeDegrees xCursor i s
    rule: DrawKeyboard_special_loop.induct)
  case (1 h widths spacing customRowY customZ slopeDegrees xCursor i s)
  have key: "frame t (DrawKey h x y z sl ks s) s kv" for x y z sl ks
    using "1.prems"(1) [of x y z sl ks "[]"] by simp
  show ?case
  proof (cases "i < 5")
    case False
    then show ?thesis
      by (subst DrawKeyboard_special_loop.simps) simp
  next
    case True
    then have n: "nat (5 - i) = Suc (nat (5 - (i + 1)))" by linarith
    from True "1.prems" have inb: "0 \<le> i \<and> i < int (length widths)" by simp
    from "1.prems" have i1: "0 \<le> i + 1" by simp
    have "frame t (and_then
        (DrawKey h (FAdd xCursor (FDiv (widths ! nat i) (FLit 2))) customRowY customZ slopeDegrees
           (Vec3 (widths ! nat i) (FLit 0.1) (FLit 0.3)) s)
        (\<lambda>s'. DrawKeyboard_special_loop h widths spacing customRowY customZ slopeDegrees
                (FAdd xCursor (FAdd (widths ! nat i) spacing)) (i + 1) s'))
      s (kv @ concat (replicate (nat (5 - (i + 1))) kv))"
    proof (rule frame_and_then [OF key])
      fix es
      show "frame t (DrawKeyboard_special_loop h widths spacing customRowY customZ slopeDegrees
                (FAdd xCursor (FAdd (widths ! nat i) spacing)) (i + 1) (emit es s)) (emit es s)
              (concat (replicate (nat (5 - (i + 1))) kv))"
        by (rule "1.IH" [OF True inb refl refl _ i1 "1.prems"(3)])
           (use "1.prems"(1) in simp)
    qed
    with True inb show ?thesis
      by (subst DrawKeyboard_special_loop.simps) (simp add: n Let_def)
  qed
qed

lemma DrawKeyboard_row_loop_frame:
  assumes "\<And>x y z sl ks es. frame t (DrawKey h x y z sl ks (emit es s)) (emit es s) kv"
    and "0 \<le> row"
  shows "frame t (DrawKeyboard_row_loop h keySpacingX keySpacingZ gridStartX gridStartZ y slopeDegrees 5 14 row s)
     s (concat (replicate (keys_from row) kv))"
  using assms
proof (induction h keySpacingX keySpacingZ gridStartX gridStartZ y slopeDegrees "5::int" "14::int" row s
    rule: DrawKeyboard_row_loop.induct)
  case (1 h keySpacingX keySpacingZ gridStartX gridStartZ y slopeDegrees row s)
  have key: "frame t (DrawKey h x y z sl ks (emit es s)) (emit es s) kv" for x y z sl ks es
    by (rule "1.prems"(1))
  have key': "frame t (DrawKey h x y z sl ks (emit fs (emit es s))) (emit fs (emit es s)) kv"
    for x y z sl ks es fs
    using key [of x y z sl ks "es @ fs"] by simp
  show ?case
  proof (cases "row < 5")
    case False
    then show ?thesis
      by (subst DrawKeyboard_row_loop.simps) (simp add: keys_from_def)
  next
    case True
    from "1.prems" have r1: "0 \<le> row + 1" by simp
    have rest: "frame t (DrawKeyboard_row_loop h keySpacingX keySpacingZ gridStartX gridStartZ y slopeDegrees
                5 14 (row + 1) (emit es s)) (emit es s) (concat (replicate (keys_from (row + 1)) kv))" for es
      by (rule "1.hyps" [OF True key' r1])
    show ?thesis
    proof (cases "row < 4")
      case r: True
      have k: "14 + keys_from (row + 1) = keys_from row"
        using r "1.prems" by (auto simp: keys_from_def)
      have c: "frame t (DrawKeyboard_col_loop h keySpacingX keySpacingZ gridStartX gridStartZ y slopeDegrees 14 row 0 s)
          s (concat (replicate (nat (14 - 0)) kv))"
        by (rule DrawKeyboard_col_loop_frame) (rule key)
      have "frame t (and_then
          (DrawKeyboard_col_loop h keySpacingX keySpacingZ gridStartX gridStartZ y slopeDegrees 14 row 0 s)
          (\<lambda>s'. DrawKeyboard_row_loop h keySpacingX keySpacingZ gridStartX gridStartZ y slopeDegrees
                   5 14 (row + 1) s'))
        s (concat (replicate (nat (14 - 0)) kv) @ concat (replicate (keys_from (row + 1)) kv))"
        by (rule frame_and_then [OF c rest])
      with True r show ?thesis
        by (subst DrawKeyboard_row_loop.simps) (simp add: k [symmetric] replicate_add)
    next
      case r: False
      have k: "5 + keys_from (row + 1) = keys_from row"
        using r True by (auto simp: keys_from_def)
      have c: "frame t (DrawKeyboard_special_loop h [FLit 0.3, FLit 0.6, FLit 1.8, FLit 0.6, FLit 0.3] (FLit 0.05)
             (FSub y (FLit 0.05)) (FAdd gridStartZ (FMul keySpacingZ (FLit 1.2))) (FLit 7)
             (FDiv (FNeg (FAdd (FAdd (FAdd (FAdd (FAdd (FLit 0.3) (FLit 0.6)) (FLit 1.8)) (FLit 0.6)) (FLit 0.3))
                (FMul (FLit 0.05) (FLit 4)))) (FLit 2)) 0 s)
          s (concat (replicate (nat (5 - 0)) kv))"
        by (rule DrawKeyboard_special_loop_frame) (rule key, simp_all)
      have "frame t (and_then
          (DrawKeyboard_special_loop h [FLit 0.3, FLit 0.6, FLit 1.8, FLit 0.6, FLit 0.3] (FLit 0.05)
             (FSub y (FLit 0.05)) (FAdd gridStartZ (FMul keySpacingZ (FLit 1.2))) (FLit 7)
             (FDiv (FNeg (FAdd (FAdd (FAdd (FAdd (FAdd (FLit 0.3) (FLit 0.6)) (FLit 1.8)) (FLit 0.6)) (FLit 0.3))
                (FMul (FLit 0.05) (FLit 4)))) (FLit 2)) 0 s)
          (\<lambda>s'. DrawKeyboard_row_loop h keySpacingX keySpacingZ gridStartX gridStartZ y slopeDegrees
                   5 14 (row + 1) s'))
        s (concat (replicate (nat (5 - 0)) kv) @ concat (replicate (keys_from (row + 1)) kv))"
        by (rule frame_and_then [OF c rest])
      with True r show ?thesis
        by (subst DrawKeyboard_row_loop.simps) (simp add: Let_def k [symmetric] replicate_add)
    qed
  qed
qed

lemma keys_from_0: "keys_from 0 = 61"
  by (simp add: keys_from_def)

lemma key_loops_live:
  assumes "live t s"
  shows "frame t (DrawKeyboard_row_loop h keySpacingX keySpacingZ gridStartX gridStartZ y slopeDegrees 5 14 0 s)
     s (keys 61)"
  using DrawKeyboard_row_loop_frame [where kv = "coloured BoxMesh" and t = t and s = s and row = 0,
      OF DrawKey_live] assms
  by (simp add: keys_def keys_from_0)

lemma key_loops_idle:
  assumes "idle s"
  shows "frame True (DrawKeyboard_row_loop h keySpacingX keySpacingZ gridStartX gridStartZ y slopeDegrees 5 14 0 s)
     s (replicate 61 (Draw BoxMesh))"
proof -
  have c: "concat (replicate n [x]) = replicate n x" for n and x :: mark
    by (induction n) simp_all
  show ?thesis
    using DrawKeyboard_row_loop_frame [where kv = "[Draw BoxMesh]" and t = True and s = s and row = 0,
        OF DrawKey_idle] assms
    by (simp add: keys_from_0 c)
qed

lemma DrawKeyboard_live:
  assumes "live t s"
  shows "frame t (DrawKeyboard h s) s (coloured BoxMesh @ coloured BoxMesh @ keys 61)"
  using assms
  apply (simp add: DrawKeyboard_def live_steps)
  apply (rule frame_from)
   apply (rule key_loops_live)
   apply simp
  apply simp
  done

lemma DrawKeyboard_idle:
  assumes "idle s"
  shows "frame True (DrawKeyboard h s) s (replicate 63 (Draw BoxMesh))"
  using assms
  apply (simp add: DrawKeyboard_def idle_steps)
  apply (rule frame_from)
   apply (rule key_loops_idle)
   apply simp
  apply (simp add: eval_nat_numeral)
  done

lemma mouse_and_keyboard_live:
  assumes "live t s"
  shows "frame t (DrawKeyboard h (DrawMouseCable h (DrawMouse h s))) s
     ((coloured BoxMesh @ coloured BoxMesh @ coloured BoxMesh) @ cable
      @ (coloured BoxMesh @ coloured BoxMesh @ keys 61))"
proof -
  from DrawMouse_live [OF assms] obtain es where
    1: "DrawMouse h s = emit es s" and v1: "view es = coloured BoxMesh @ coloured BoxMesh @ coloured BoxMesh"
    by blast
  from assms have "live t (emit es s)" by simp
  from DrawMouseCable_live [OF this] obtain fs where
    2: "DrawMouseCable h (emit es s) = emit fs (emit es s)" and v2: "view fs = cable"
    by blast
  from assms have "live t (emit (es @ fs) s)" by simp
  then have "frame t (DrawKeyboard h (emit (es @ fs) s)) (emit (es @ fs) s)
      (coloured BoxMesh @ coloured BoxMesh @ keys 61)"
    by (rule DrawKeyboard_live)
  then have "frame t (DrawKeyboard h (emit (es @ fs) s)) s
      (view (es @ fs) @ coloured BoxMesh @ coloured BoxMesh @ keys 61)"
    by (rule frame_from) simp
  with 1 2 v1 v2 show ?thesis by simp
qed

lemma RenderScene_live:
  assumes "live t s"
  shows "frame t (RenderScene h s) s RenderScene_marks"
proof (rule by_slot [OF assms, where tag = "''TableTexture''"])
  fix e
  assume "FindTextureSlot ''TableTexture'' s = Inl e"
  with assms show "\<exists>e'. RenderScene h s = Inl e'"
    by (simp add: RenderScene_def live_steps)
next
  fix k
  assume k: "FindTextureSlot ''TableTexture'' s = Inr k"
  have "frame t (RenderScene h s) s
     (textured PlaneMesh
      @ textured BoxMesh
      @ textured BoxMesh
      @ (textured BoxMesh @ textured PrismMesh @ textured BoxMesh @ textured PrismMesh)
      @ (textured BoxMesh @ coloured BoxMesh @ coloured BoxMesh)
      @ textured BoxMesh
      @ (textured BoxMesh @ coloured BoxMesh @ coloured BoxMesh @ coloured BoxMesh @ coloured BoxMesh)
      @ ((coloured BoxMesh @ coloured BoxMesh @ coloured BoxMesh) @ cable
         @ (coloured BoxMesh @ coloured BoxMesh @ keys 61))
      @ cable)"
    using assms k
    apply (simp add: RenderScene_def SetTransformations_live SetShaderTexture_live
        SetShaderMaterial_live DrawMesh_call_def Let_def)
    apply (rule frame_from)
     apply (rule frame_and_then [OF DrawMainBody_live], simp)
     apply (rule frame_and_then [OF DrawBackBase_live], simp)
     apply (rule frame_and_then [OF DrawFeet_live], simp)
     apply (rule frame_and_then [OF DrawFloppyDrive_live], simp)
     apply (rule frame_and_then [OF DrawCRTPanel_live], simp)
     apply (rule frame_and_then [OF DrawProFile_live], simp)
     apply (rule frame_and_then [OF mouse_and_keyboard_live], simp)
     apply (rule DrawKeyboardCable_live, simp)
    apply (simp add: textured_def)
    done
  then show "frame t (RenderScene h s) s RenderScene_marks"
    by (simp add: RenderScene_marks_def)
qed

lemma mouse_and_keyboard_idle:
  assumes "idle s"
  shows "frame True (DrawKeyboard h (DrawMouseCable h (DrawMouse h s))) s
     ([Draw BoxMesh, Draw BoxMesh, Draw BoxMesh, Draw CylinderMesh, Draw CylinderMesh, Draw CylinderMesh]
      @ replicate 63 (Draw BoxMesh))"
  using assms
  apply (simp add: DrawMouse_idle DrawMouseCable_idle)
  apply (rule frame_from)
   apply (rule DrawKeyboard_idle, simp)
  apply simp
  done

lemma RenderScene_idle:
  assumes "idle s"
  shows "frame True (RenderScene h s) s (map Draw RenderScene_meshes)"
proof -
  have "frame True (RenderScene h s) s
     ([Draw PlaneMesh]
      @ [Draw BoxMesh]
      @ [Draw BoxMesh]
      @ [Draw BoxMesh, Draw PrismMesh, Draw BoxMesh, Draw PrismMesh]
      @ [Draw BoxMesh, Draw BoxMesh, Draw BoxMesh]
      @ [Draw BoxMesh]
      @ replicate 5 (Draw BoxMesh)
      @ ([Draw BoxMesh, Draw BoxMesh, Draw BoxMesh, Draw CylinderMesh, Draw CylinderMesh, Draw CylinderMesh]
         @ replicate 63 (Draw BoxMesh))
      @ replicate 3 (Draw CylinderMesh))"
    using assms
    apply (simp add: RenderScene_def idle_steps)
    apply (rule frame_from)
     apply (rule frame_and_then [OF DrawMainBody_idle], simp)
     apply (rule frame_and_then [OF DrawBackBase_idle], simp)
     apply (rule frame_and_then [OF DrawFeet_idle], simp)
     apply (rule frame_and_then [OF DrawFloppyDrive_idle], simp)
     apply (rule frame_and_then [OF DrawCRTPanel_idle], simp)
     apply (rule frame_and_then [OF DrawProFile_idle], simp)
     apply (rule frame_and_then [OF mouse_and_keyboard_idle], simp)
     apply (rule DrawKeyboardCable_idle, simp)
    apply simp
    done
  moreover have "[Draw PlaneMesh]
      @ [Draw BoxMesh]
      @ [Draw BoxMesh]
      @ [Draw BoxMesh, Draw PrismMesh, Draw BoxMesh, Draw PrismMesh]
      @ [Draw BoxMesh, Draw BoxMesh, Draw BoxMesh]
      @ [Draw BoxMesh]
      @ replicate 5 (Draw BoxMesh)
      @ ([Draw BoxMesh, Draw BoxMesh, Draw BoxMesh, Draw CylinderMesh, Draw CylinderMesh, Draw CylinderMesh]
         @ replicate 63 (Draw BoxMesh))
      @ replicate 3 (Draw CylinderMesh) = map Draw RenderScene_meshes"
    by code_simp
  ultimately show ?thesis by simp
qed

lemma drawn_append [simp]: "drawn (ks @ ls) = drawn ks @ drawn ls"
  by (induction ks rule: drawn.induct) simp_all

lemma drawn_keys [simp]: "drawn (keys n) = replicate n BoxMesh"
  by (induction n) (simp_all add: keys_def coloured_def)

lemma drawn_map_Draw [simp]: "drawn (map Draw ms) = ms"
  by (induction ms) simp_all

lemma drawn_replicate_Draw [simp]: "drawn (replicate n (Draw m)) = replicate n m"
  by (induction n) simp_all

lemma writes_map_Draw [simp]:
  "writes_before_draws False False (map Draw ms) = map (\<lambda>m. (m, False, False)) ms"
  by (induction ms) simp_all

lemma drawn_RenderScene_marks: "drawn RenderScene_marks = RenderScene_meshes"
  by code_simp

lemma placed_and_drawn_RenderScene_marks:
  "placed_and_drawn RenderScene_marks = concat (map (\<lambda>m. [Model, Draw m]) RenderScene_meshes)"
  by code_simp

lemma length_RenderScene_meshes: "length RenderScene_meshes = 88"
  by code_simp




lemma RenderScene_null_materials:
  "m_pShaderManager s = NULL \<Longrightarrow> m_objectMaterials s \<noteq> [] \<Longrightarrow>
   RenderScene h s = Inl NullPointerDereference"
  by (simp add: RenderScene_def SetTransformations_def SetShaderTexture_def SetShaderMaterial_def
      shader_set_def FindMaterial_def Let_def)

lemma DrawKey_null_materials:
  "m_pShaderManager s = NULL \<Longrightarrow> m_objectMaterials s \<noteq> [] \<Longrightarrow>
   DrawKey h x y z sl ks (emit es s) = Inl NullPointerDereference"
  by (simp add: DrawKey_def SetTransformations_def SetShaderMaterial_def
      shader_set_def FindMaterial_def Let_def)

text \<open>The marks of a frame that returns, from any state.\<close>

lemma RenderScene_returned:
  assumes "RenderScene h s = Inr s'"
  shows "s' = emit (new_calls s s') s
     \<and> view (new_calls s s') = (if m_pShaderManager s = NULL then map Draw RenderScene_meshes else RenderScene_marks)"
proof (cases "m_pShaderManager s = NULL")
  case True
  with assms RenderScene_null_materials [of s h] have "idle s" by (auto simp: idle_def)
  from RenderScene_idle [OF this, of h] assms True show ?thesis
    by (auto elim: frameE)
next
  case False
  then have "live False s" by (simp add: live_def)
  from RenderScene_live [OF this, of h] assms False show ?thesis
    by (auto elim: frameE)
qed

lemma key_loops_returned:
  assumes "DrawKeyboard_row_loop h keySpacingX keySpacingZ gridStartX gridStartZ y slopeDegrees 5 14 0 s = Inr s'"
  shows "drawn (view (new_calls s s')) = replicate 61 BoxMesh"
proof (cases "m_pShaderManager s = NULL")
  case False
  then have "live False s" by (simp add: live_def)
  from key_loops_live [OF this, of h keySpacingX keySpacingZ gridStartX gridStartZ y slopeDegrees] assms
  show ?thesis by (auto elim: frameE)
next
  case True
  show ?thesis
  proof (cases "m_objectMaterials s = []")
    case e: True
    with True have "idle s" by (simp add: idle_def)
    from key_loops_idle [OF this, of h keySpacingX keySpacingZ gridStartX gridStartZ y slopeDegrees] assms
    show ?thesis by (auto elim!: frameE)
  next
    case e: False
    have "frame False (DrawKeyboard_row_loop h keySpacingX keySpacingZ gridStartX gridStartZ y slopeDegrees 5 14 0 s)
        s (concat (replicate (keys_from 0) (coloured BoxMesh)))"
      by (rule DrawKeyboard_row_loop_frame) (simp_all add: DrawKey_null_materials [OF True e])
    with assms show ?thesis
      by (auto elim!: frameE simp: keys_from_0 keys_def [symmetric])
  qed
qed

text \<open>
  Claim C3, amended. A frame of \<open>RenderScene\<close> that returns has drawn the 88 meshes of
  \<open>RenderScene_meshes\<close> in that order, from every state and whatever the calls made before
  the frame; with the shader manager there, one draw call follows each placement by
  \<open>SetTransformations\<close>. The keyboard is 2 body boxes and 61 keys: the key loops of
  \<open>DrawKeyboard\<close> (5 rows, 14 columns), when they return, have drawn 61 boxes, four rows of
  14 and one of 5. The frame and the key loops return when the shader manager is there and
  at most 16 textures are registered, and when the shader manager is null and no material
  is defined.
\<close>

theorem RenderScene_draws:
  "(\<forall>s'. RenderScene h s = Inr s' \<longrightarrow>
      s' = emit (new_calls s s') s \<and> drawn (view (new_calls s s')) = RenderScene_meshes)
   \<and> length RenderScene_meshes = 88
   \<and> (m_pShaderManager s \<noteq> NULL \<longrightarrow> (\<forall>s'. RenderScene h s = Inr s' \<longrightarrow>
        placed_and_drawn (view (new_calls s s')) = concat (map (\<lambda>m. [Model, Draw m]) RenderScene_meshes)))
   \<and> (\<forall>s'. DrawKeyboard_row_loop h keySpacingX keySpacingZ gridStartX gridStartZ y slopeDegrees 5 14 0 s = Inr s'
        \<longrightarrow> drawn (view (new_calls s s')) = replicate 61 BoxMesh)
   \<and> ((m_pShaderManager s \<noteq> NULL \<and> m_loadedTextures s \<le> 16)
        \<or> (m_pShaderManager s = NULL \<and> m_objectMaterials s = [])
      \<longrightarrow> (\<exists>s'. RenderScene h s = Inr s')
        \<and> (\<exists>s'. DrawKeyboard_row_loop h keySpacingX keySpacingZ gridStartX gridStartZ y slopeDegrees 5 14 0 s = Inr s'))"
proof -
  have a: "\<forall>s'. RenderScene h s = Inr s' \<longrightarrow>
      s' = emit (new_calls s s') s \<and> drawn (view (new_calls s s')) = RenderScene_meshes"
    using RenderScene_returned [of h s] by (auto simp: drawn_RenderScene_marks)
  have b: "m_pShaderManager s \<noteq> NULL \<longrightarrow> (\<forall>s'. RenderScene h s = Inr s' \<longrightarrow>
        placed_and_drawn (view (new_calls s s')) = concat (map (\<lambda>m. [Model, Draw m]) RenderScene_meshes))"
    using RenderScene_returned [of h s] by (auto simp: placed_and_drawn_RenderScene_marks)
  have c: "\<forall>s'. DrawKeyboard_row_loop h keySpacingX keySpacingZ gridStartX gridStartZ y slopeDegrees 5 14 0 s = Inr s'
        \<longrightarrow> drawn (view (new_calls s s')) = replicate 61 BoxMesh"
    using key_loops_returned [of h keySpacingX keySpacingZ gridStartX gridStartZ y slopeDegrees s] by blast
  have d: "(\<exists>s'. RenderScene h s = Inr s')
        \<and> (\<exists>s'. DrawKeyboard_row_loop h keySpacingX keySpacingZ gridStartX gridStartZ y slopeDegrees 5 14 0 s = Inr s')"
    if "(m_pShaderManager s \<noteq> NULL \<and> m_loadedTextures s \<le> 16)
        \<or> (m_pShaderManager s = NULL \<and> m_objectMaterials s = [])"
    using that
  proof
    assume "m_pShaderManager s \<noteq> NULL \<and> m_loadedTextures s \<le> 16"
    then have l: "live True s" by (simp add: live_def MAX_TEXTURES_def)
    from RenderScene_live [OF l, of h]
      key_loops_live [OF l, of h keySpacingX keySpacingZ gridStartX gridStartZ y slopeDegrees]
    show ?thesis by (auto elim!: frameE)
  next
    assume "m_pShaderManager s = NULL \<and> m_objectMaterials s = []"
    then have i: "idle s" by (simp add: idle_def)
    from RenderScene_idle [OF i, of h]
      key_loops_idle [OF i, of h keySpacingX keySpacingZ gridStartX gridStartZ y slopeDegrees]
    show ?thesis by (auto elim!: frameE)
  qed
  from a b c d show ?thesis by (simp add: length_RenderScene_meshes)
qed

theorem RenderScene_draws_witness:
  "(\<exists>s'. RenderScene example_h (DefineObjectMaterials example_scene) = Inr s'
        \<and> length (drawn (view (new_calls (DefineObjectMaterials example_scene) s'))) = 88
        \<and> drawn (view (new_calls (DefineObjectMaterials example_scene) s')) ! 4 = PrismMesh)
   \<and> (\<exists>s'. RenderScene example_h null_scene = Inr s'
        \<and> length (drawn (view (new_calls null_scene s'))) = 88
        \<and> drawn (view (new_calls null_scene s')) ! 4 = PrismMesh)"
proof -
  have 1: "m_pShaderManager (DefineObjectMaterials example_scene) \<noteq> NULL
      \<and> m_loadedTextures (DefineObjectMaterials example_scene) \<le> 16"
    by (simp add: DefineObjectMaterials_def example_scene_def Let_def)
  have 2: "m_pShaderManager null_scene = NULL \<and> m_objectMaterials null_scene = []"
    by (simp add: null_scene_def example_scene_def)
  have m: "RenderScene_meshes ! 4 = PrismMesh" by code_simp
  from RenderScene_draws [of example_h "DefineObjectMaterials example_scene"
      "FLit 0" "FLit 0" "FLit 0" "FLit 0" "FLit 0" "FLit 0"] 1 m
  have "\<exists>s'. RenderScene example_h (DefineObjectMaterials example_scene) = Inr s'
        \<and> length (drawn (view (new_calls (DefineObjectMaterials example_scene) s'))) = 88
        \<and> drawn (view (new_calls (DefineObjectMaterials example_scene) s')) ! 4 = PrismMesh"
    by auto
  moreover from RenderScene_draws [of example_h null_scene
      "FLit 0" "FLit 0" "FLit 0" "FLit 0" "FLit 0" "FLit 0"] 2 m
  have "\<exists>s'. RenderScene example_h null_scene = Inr s'
        \<and> length (drawn (view (new_calls null_scene s'))) = 88
        \<and> drawn (view (new_calls null_scene s')) ! 4 = PrismMesh"
    by auto
  ultimately show ?thesis by blast
qed

text \<open>
  Claim C3 as stated counts 63 keyboard keys and speaks of every invocation. The key loops
  of \<open>DrawKeyboard\<close>, run with the locals \<open>DrawKeyboard\<close> gives them, draw 61 boxes; 63 is
  the number of boxes of the whole keyboard, its two body boxes included. And a frame with
  the null shader manager and the materials of \<open>DefineObjectMaterials\<close> does not return: the
  first \<open>SetShaderMaterial\<close> goes through the null pointer before any draw call.
\<close>

theorem keyboard_keys_counterexample:
  "length (drawn (view (result_calls
      (DrawKeyboard_row_loop example_h (FLit 0.35) (FLit 0.35)
         (FDiv (FNeg (FMul (FInt 13) (FLit 0.35))) (FLit 2)) (FLit 5.3) (FLit 0.55) (FLit 7)
         5 14 0 example_scene) example_scene))) \<noteq> 63
   \<and> length (drawn (view (result_calls
      (DrawKeyboard_row_loop example_h (FLit 0.35) (FLit 0.35)
         (FDiv (FNeg (FMul (FInt 13) (FLit 0.35))) (FLit 2)) (FLit 5.3) (FLit 0.55) (FLit 7)
         5 14 0 example_scene) example_scene))) = 61
   \<and> RenderScene example_h (DefineObjectMaterials null_scene) = Inl NullPointerDereference
   \<and> drawn (view (result_calls (RenderScene example_h (DefineObjectMaterials null_scene))
        (DefineObjectMaterials null_scene))) = []"
proof -
  have l: "live True example_scene"
    by (simp add: live_def example_scene_def MAX_TEXTURES_def)
  have "frame True (DrawKeyboard_row_loop example_h (FLit 0.35) (FLit 0.35)
         (FDiv (FNeg (FMul (FInt 13) (FLit 0.35))) (FLit 2)) (FLit 5.3) (FLit 0.55) (FLit 7)
         5 14 0 example_scene) example_scene (keys 61)"
    by (rule key_loops_live [OF l])
  then obtain fs where
    "DrawKeyboard_row_loop example_h (FLit 0.35) (FLit 0.35)
         (FDiv (FNeg (FMul (FInt 13) (FLit 0.35))) (FLit 2)) (FLit 5.3) (FLit 0.55) (FLit 7)
         5 14 0 example_scene = Inr (emit fs example_scene)"
    and "view fs = keys 61"
    by (auto elim!: frameE)
  moreover have "RenderScene example_h (DefineObjectMaterials null_scene) = Inl NullPointerDereference"
    by (rule RenderScene_null_materials)
       (simp_all add: DefineObjectMaterials_def null_scene_def example_scene_def Let_def)
  ultimately show ?thesis by (simp add: result_calls_def)
qed




end
